theory Spec2Isabelle
  imports Complex_Main
begin

section \<open>Blink detection hook: landmarks and the eye aspect ratio\<close>

text \<open>
  The development follows \<^verbatim>\<open>src/hooks/useBlinkDetection.ts\<close>.

  Numbers. JavaScript numbers are binary64 floating-point numbers. Every finite binary64
  number is a real number, so coordinates, EAR values and the threshold have type
  \<^typ>\<open>real\<close>. The hook is modelled in exact arithmetic (\<open>calculateEAR\<close> and what builds
  on it): the code up to the rounding of each arithmetic result. Where a property depends
  on that rounding it is stated for \<open>calculateEAR64\<close>, the same computation with every
  result rounded to binary64. NaN and the infinities are not modelled. Counters and array
  indices are natural numbers (the source only ever increments the counter from 0 and
  indexes with the non-negative constants below).

  Errors. Reading a property of \<^verbatim>\<open>undefined\<close> raises a TypeError in JavaScript; this is
  the only exception the modelled code can raise. Division never raises in JavaScript.
\<close>

datatype js_error = TypeError

record landmark =
  x :: real
  y :: real
  z :: real

text \<open>Eye landmark indices for the MediaPipe Face Landmarker (lines 6-15).\<close>

definition LEFT_EYE_TOP :: nat where "LEFT_EYE_TOP = 159"
definition LEFT_EYE_BOTTOM :: nat where "LEFT_EYE_BOTTOM = 145"
definition LEFT_EYE_LEFT :: nat where "LEFT_EYE_LEFT = 33"
definition LEFT_EYE_RIGHT :: nat where "LEFT_EYE_RIGHT = 133"

definition RIGHT_EYE_TOP :: nat where "RIGHT_EYE_TOP = 386"
definition RIGHT_EYE_BOTTOM :: nat where "RIGHT_EYE_BOTTOM = 374"
definition RIGHT_EYE_LEFT :: nat where "RIGHT_EYE_LEFT = 362"
definition RIGHT_EYE_RIGHT :: nat where "RIGHT_EYE_RIGHT = 263"

text \<open>
  \<^verbatim>\<open>calculateEAR\<close> (lines 32-52), in exact arithmetic. \<^verbatim>\<open>landmarks[i]\<close> is \<^verbatim>\<open>undefined\<close> for an index past
  the end of the array, and the first read of \<^verbatim>\<open>.x\<close> on it raises a TypeError; all four
  points are read before anything is returned, so one missing point makes the call raise.
\<close>

definition calculateEAR :: "landmark list \<Rightarrow> nat \<Rightarrow> nat \<Rightarrow> nat \<Rightarrow> nat \<Rightarrow> js_error + real" where
  "calculateEAR landmarks topIdx bottomIdx leftIdx rightIdx =
     (if topIdx < length landmarks \<and> bottomIdx < length landmarks \<and>
         leftIdx < length landmarks \<and> rightIdx < length landmarks
      then
        (let top = landmarks ! topIdx;
             bottom = landmarks ! bottomIdx;
             left = landmarks ! leftIdx;
             right = landmarks ! rightIdx;
             verticalDist = sqrt ((x top - x bottom)\<^sup>2 + (y top - y bottom)\<^sup>2);
             horizontalDist = sqrt ((x left - x right)\<^sup>2 + (y left - y right)\<^sup>2)
         in Inr (verticalDist / (horizontalDist + 1 / 10000)))
      else Inl TypeError)"

text \<open>
  Vocabulary of the specification, used to state the properties of \<^const>\<open>calculateEAR\<close>:
  the Euclidean distance of two landmarks in the image plane, and the uniform translation
  of a landmark frame by an offset vector.
\<close>

definition euclidean :: "landmark \<Rightarrow> landmark \<Rightarrow> real" where
  "euclidean p q = sqrt ((x p - x q)\<^sup>2 + (y p - y q)\<^sup>2)"

definition translate :: "real \<Rightarrow> real \<Rightarrow> real \<Rightarrow> landmark list \<Rightarrow> landmark list" where
  "translate dx dy dz landmarks =
     map (\<lambda>p. p\<lparr>x := x p + dx, y := y p + dy, z := z p + dz\<rparr>) landmarks"

text \<open>
  Rounding of a real number to binary64: 53 significant bits, to nearest, ties to even.
  \<open>rne\<close> rounds to the nearest integer, ties to even; \<open>binary64\<close> scales the number so
  that its integer part has 53 bits, rounds, and scales back. The exponent is not bounded:
  overflow to infinity and gradual underflow, which need magnitudes above \<open>2^1024\<close> or
  below \<open>2^-1022\<close>, are not modelled.
\<close>

definition rne :: "real \<Rightarrow> int" where
  "rne r =
     (let f = \<lfloor>r\<rfloor> in
      if r - of_int f < 1 / 2 then f
      else if 1 / 2 < r - of_int f then f + 1
      else if even f then f else f + 1)"

definition binary64 :: "real \<Rightarrow> real" where
  "binary64 r =
     (if r = 0 then 0
      else (let u = 2 powr (of_int \<lfloor>log 2 \<bar>r\<bar>\<rfloor> - 52) in of_int (rne (r / u)) * u))"

text \<open>
  \<^verbatim>\<open>calculateEAR\<close> (lines 32-52) as the code computes it, in binary64: every difference,
  square, sum, square root and quotient is rounded, and \<^verbatim>\<open>0.0001\<close> is the binary64 number
  nearest to \<open>1/10000\<close>. (\<^verbatim>\<open>Math.sqrt\<close> is correctly rounded; \<^verbatim>\<open>Math.pow(a, 2)\<close> is taken to
  be the correctly rounded square, as the engines compute it.) The divisor is positive
  (lemma \<open>divisor64_pos\<close>), so the quotient is an ordinary division.
\<close>

definition calculateEAR64 :: "landmark list \<Rightarrow> nat \<Rightarrow> nat \<Rightarrow> nat \<Rightarrow> nat \<Rightarrow> js_error + real" where
  "calculateEAR64 landmarks topIdx bottomIdx leftIdx rightIdx =
     (if topIdx < length landmarks \<and> bottomIdx < length landmarks \<and>
         leftIdx < length landmarks \<and> rightIdx < length landmarks
      then
        (let top = landmarks ! topIdx;
             bottom = landmarks ! bottomIdx;
             left = landmarks ! leftIdx;
             right = landmarks ! rightIdx;
             verticalDist =
               binary64 (sqrt (binary64 (binary64 ((binary64 (x top - x bottom))\<^sup>2) +
                                         binary64 ((binary64 (y top - y bottom))\<^sup>2))));
             horizontalDist =
               binary64 (sqrt (binary64 (binary64 ((binary64 (x left - x right))\<^sup>2) +
                                         binary64 ((binary64 (y left - y right))\<^sup>2))))
         in Inr (binary64 (verticalDist / binary64 (horizontalDist + binary64 (1 / 10000)))))
      else Inl TypeError)"

text \<open>
  The translation of a frame as JavaScript numbers form it: every sum of a coordinate and
  an offset is rounded to binary64. \<^const>\<open>translate\<close> is the translation whose sums are
  exact.
\<close>

definition translate64 :: "real \<Rightarrow> real \<Rightarrow> real \<Rightarrow> landmark list \<Rightarrow> landmark list" where
  "translate64 dx dy dz landmarks =
     map (\<lambda>p. p\<lparr>x := binary64 (x p + dx), y := binary64 (y p + dy), z := binary64 (z p + dz)\<rparr>)
       landmarks"


section \<open>The detection hook\<close>

text \<open>
  Options of \<^verbatim>\<open>useBlinkDetection\<close> with their defaults (lines 54-58). The optional
  callback \<^verbatim>\<open>onBlink\<close> is not a field: the model counts how often the statement
  \<^verbatim>\<open>onBlink?.()\<close> is reached, which is the emission of a blink event. The callback is
  taken to return normally and not to touch the hook.
\<close>

record options =
  earThreshold :: real
  consecutiveFrames :: nat

definition defaultOptions :: options where
  "defaultOptions = \<lparr>earThreshold = 1 / 5, consecutiveFrames = 2\<rparr>"

text \<open>
  The two refs of the debouncer, \<^verbatim>\<open>blinkCounterRef\<close> and \<^verbatim>\<open>wasBlinkingRef\<close>
  (lines 65-66): the DebounceState of the specification, whose
  \<^verbatim>\<open>consecutiveClosedFrames\<close> is \<^verbatim>\<open>blinkCounterRef.current\<close>.
\<close>

record debounce_state =
  blinkCounterRef :: nat
  wasBlinkingRef :: bool

text \<open>
  The block under the comment \<^verbatim>\<open>// Detect blink\<close> in \<^verbatim>\<open>detectFrame\<close> (lines 176-188).
  The second component tells whether \<^verbatim>\<open>onBlink?.()\<close> was reached. The \<^verbatim>\<open>else\<close> that
  clears \<^verbatim>\<open>wasBlinkingRef\<close> belongs to the test of the counter, not to the inner test of
  the flag.
\<close>

definition detectBlink :: "options \<Rightarrow> real \<Rightarrow> debounce_state \<Rightarrow> debounce_state \<times> bool" where
  "detectBlink os avgEAR d =
     (if avgEAR < earThreshold os
      then (d\<lparr>blinkCounterRef := blinkCounterRef d + 1\<rparr>, False)
      else
        (let (d1, fired) =
               (if consecutiveFrames os \<le> blinkCounterRef d
                then (if \<not> wasBlinkingRef d
                      then (d\<lparr>wasBlinkingRef := True\<rparr>, True)
                      else (d, False))
                else (d\<lparr>wasBlinkingRef := False\<rparr>, False))
         in (d1\<lparr>blinkCounterRef := 0\<rparr>, fired)))"

text \<open>
  The debouncer applied to a sequence of averaged EAR samples, one per frame: for each
  frame, whether a blink event was emitted at it.
\<close>

fun blinkEvents :: "options \<Rightarrow> debounce_state \<Rightarrow> real list \<Rightarrow> bool list" where
  "blinkEvents os d [] = []"
| "blinkEvents os d (avgEAR # ears) =
     (case detectBlink os avgEAR d of (d', fired) \<Rightarrow> fired # blinkEvents os d' ears)"

text \<open>
  The closure \<^verbatim>\<open>detectFrame\<close> made by one call of \<^verbatim>\<open>startDetection\<close>: its local
  \<^verbatim>\<open>lastVideoTime\<close> and the options it captured. The video element as a frame callback
  reads it, the canvas as \<^verbatim>\<open>startDetection\<close> reads it (whether \<^verbatim>\<open>getContext("2d")\<close>
  gives a context), and the answer of \<^verbatim>\<open>detectForVideo\<close>: the field
  \<^verbatim>\<open>faceLandmarks\<close>, absent or a list of faces.
\<close>

record detect_loop =
  lastVideoTime :: real
  opts :: options

record video =
  videoWidth :: nat
  currentTime :: real

record canvas =
  context2d :: bool

type_synonym detection = "landmark list list option"

text \<open>
  The state of the hook: its React state (\<^verbatim>\<open>isInitialized\<close>, \<^verbatim>\<open>isRunning\<close>,
  \<^verbatim>\<open>error\<close>), its refs (a ref to an object is modelled by whether it is set), the count
  of \<^verbatim>\<open>onBlink\<close> invocations, and the part of the browser the hook acts on: the list of
  pending animation-frame callbacks with their handles, and the next handle to hand out.
  Drawing on the canvas changes none of these and is left out.
\<close>

record hook_state =
  isInitialized :: bool
  isRunning :: bool
  error :: "string option"
  faceLandmarkerRef :: bool
  animationFrameRef :: "nat option"
  debounce :: debounce_state
  drawingUtilsRef :: bool
  onBlinkCalls :: nat
  frameQueue :: "(nat \<times> detect_loop) list"
  nextHandle :: nat

definition initialState :: hook_state where
  "initialState =
     \<lparr>isInitialized = False, isRunning = False, error = None, faceLandmarkerRef = False,
      animationFrameRef = None,
      debounce = \<lparr>blinkCounterRef = 0, wasBlinkingRef = False\<rparr>,
      drawingUtilsRef = False, onBlinkCalls = 0, frameQueue = [], nextHandle = 1\<rparr>"

text \<open>
  The browser's \<^verbatim>\<open>requestAnimationFrame\<close> and \<^verbatim>\<open>cancelAnimationFrame\<close>: the first
  appends the callback to the pending list and returns its handle, the second removes the
  callback with the given handle.
\<close>

definition requestAnimationFrame :: "detect_loop \<Rightarrow> hook_state \<Rightarrow> nat \<times> hook_state" where
  "requestAnimationFrame l s =
     (nextHandle s,
      s\<lparr>frameQueue := frameQueue s @ [(nextHandle s, l)], nextHandle := nextHandle s + 1\<rparr>)"

definition cancelAnimationFrame :: "nat \<Rightarrow> hook_state \<Rightarrow> hook_state" where
  "cancelAnimationFrame h s = s\<lparr>frameQueue := filter (\<lambda>(h', l). h' \<noteq> h) (frameQueue s)\<rparr>"

text \<open>
  \<^verbatim>\<open>initializeDetector\<close> (lines 69-98). The two awaited loads are the environment's:
  either may fail, and the \<^verbatim>\<open>catch\<close> block handles both alike.
\<close>

datatype load_outcome = ResolverFails | LandmarkerFails | Loaded

definition initializeDetector :: "load_outcome \<Rightarrow> hook_state \<Rightarrow> js_error + hook_state" where
  "initializeDetector outcome s =
     (let s1 = s\<lparr>error := None\<rparr> in
      case outcome of
        Loaded \<Rightarrow> Inr (s1\<lparr>faceLandmarkerRef := True, isInitialized := True\<rparr>)
      | _ \<Rightarrow>
          Inr (s1\<lparr>error := Some ''Failed to initialize face detector. Please try again.'',
                  isInitialized := False\<rparr>))"

text \<open>
  The body of \<^verbatim>\<open>if (results.faceLandmarks && results.faceLandmarks.length > 0)\<close>
  (lines 135-189): the EAR of both eyes of the first face, their average, and the debouncer.
\<close>

definition processLandmarks :: "options \<Rightarrow> detection \<Rightarrow> hook_state \<Rightarrow> js_error + hook_state" where
  "processLandmarks os results s =
     (case results of
        Some (landmarks # _) \<Rightarrow>
          (case calculateEAR landmarks LEFT_EYE_TOP LEFT_EYE_BOTTOM LEFT_EYE_LEFT LEFT_EYE_RIGHT of
             Inl e \<Rightarrow> Inl e
           | Inr leftEAR \<Rightarrow>
               (case calculateEAR landmarks
                       RIGHT_EYE_TOP RIGHT_EYE_BOTTOM RIGHT_EYE_LEFT RIGHT_EYE_RIGHT of
                  Inl e \<Rightarrow> Inl e
                | Inr rightEAR \<Rightarrow>
                    (let avgEAR = (leftEAR + rightEAR) / 2 in
                     case detectBlink os avgEAR (debounce s) of
                       (d, fired) \<Rightarrow>
                         Inr (s\<lparr>debounce := d,
                                 onBlinkCalls := onBlinkCalls s + (if fired then 1 else 0)\<rparr>))))
      | _ \<Rightarrow> Inr s)"

text \<open>
  \<^verbatim>\<open>animationFrameRef.current = requestAnimationFrame(detectFrame)\<close>, the statement that
  ends every path through \<^verbatim>\<open>detectFrame\<close> (lines 120 and 192).
\<close>

definition rearm :: "detect_loop \<Rightarrow> hook_state \<Rightarrow> hook_state" where
  "rearm l s =
     (case requestAnimationFrame l s of (h, s') \<Rightarrow> s'\<lparr>animationFrameRef := Some h\<rparr>)"

text \<open>
  \<^verbatim>\<open>detectFrame\<close> (lines 118-193), run for the closure \<open>l\<close>. A TypeError raised by
  \<^const>\<open>calculateEAR\<close> leaves the function before it re-arms itself.
\<close>

definition detectFrame :: "detect_loop \<Rightarrow> video \<Rightarrow> detection \<Rightarrow> hook_state \<Rightarrow> js_error + hook_state" where
  "detectFrame l v results s =
     (if \<not> faceLandmarkerRef s \<or> videoWidth v = 0 then Inr (rearm l s)
      else if currentTime v \<noteq> lastVideoTime l then
        (case processLandmarks (opts l) results s of
           Inl e \<Rightarrow> Inl e
         | Inr s' \<Rightarrow> Inr (rearm (l\<lparr>lastVideoTime := currentTime v\<rparr>) s'))
      else Inr (rearm l s))"

text \<open>
  \<^verbatim>\<open>startDetection\<close> (lines 100-198). \<open>results\<close> is what the landmarker answers for the
  current image, should the first call of \<^verbatim>\<open>detectFrame\<close> ask it. Sizing the canvas
  to the video touches the canvas only. A TypeError raised by the first \<^verbatim>\<open>detectFrame\<close>
  leaves \<^verbatim>\<open>startDetection\<close> with it.
\<close>

definition startDetection ::
  "options \<Rightarrow> video option \<Rightarrow> canvas option \<Rightarrow> detection \<Rightarrow> hook_state \<Rightarrow> js_error + hook_state" where
  "startDetection os video canvas results s =
     (case (faceLandmarkerRef s, video, canvas) of
        (True, Some v, Some c) \<Rightarrow>
          if \<not> context2d c then Inr s
          else detectFrame \<lparr>lastVideoTime = - 1, opts = os\<rparr> v results
                 (s\<lparr>drawingUtilsRef := True, isRunning := True\<rparr>)
      | _ \<Rightarrow> Inr s)"

text \<open>
  \<^verbatim>\<open>stopDetection\<close> (lines 200-208). A handle is truthy when it is not 0.
\<close>

definition stopDetection :: "hook_state \<Rightarrow> hook_state" where
  "stopDetection s =
     (let s1 = (case animationFrameRef s of
                  Some h \<Rightarrow>
                    if h \<noteq> 0 then (cancelAnimationFrame h s)\<lparr>animationFrameRef := None\<rparr>
                    else s
                | None \<Rightarrow> s)
      in s1\<lparr>isRunning := False,
            debounce := (debounce s1)\<lparr>blinkCounterRef := 0, wasBlinkingRef := False\<rparr>\<rparr>)"

text \<open>
  One display frame of the browser: the callbacks pending at its start are taken off the
  list and run in order, each on the same image. An exception that escapes a callback is
  reported by the browser and ends that callback; \<^const>\<open>detectFrame\<close> raises before it
  has written to any ref or state, so the hook is then as the callback found it.
\<close>

definition runCallback :: "video \<Rightarrow> detection \<Rightarrow> detect_loop \<Rightarrow> hook_state \<Rightarrow> hook_state" where
  "runCallback v results l s =
     (case detectFrame l v results s of Inr s' \<Rightarrow> s' | Inl e \<Rightarrow> s)"

definition animationFrame :: "video \<Rightarrow> detection \<Rightarrow> hook_state \<Rightarrow> hook_state" where
  "animationFrame v results s =
     fold (\<lambda>(h, l). runCallback v results l) (frameQueue s) (s\<lparr>frameQueue := []\<rparr>)"

fun animationFrames :: "(video \<times> detection) list \<Rightarrow> hook_state \<Rightarrow> hook_state" where
  "animationFrames [] s = s"
| "animationFrames ((v, results) # fs) s = animationFrames fs (animationFrame v results s)"

text \<open>
  What the landmarker can answer: no face (\<^verbatim>\<open>faceLandmarks\<close> absent or empty), which
  is the test of line 135 failing; and an answer whose first face, if any, has all the
  landmarks the eye indices address (MediaPipe reports 478 per face).
\<close>

definition faceless :: "detection \<Rightarrow> bool" where
  "faceless results = (case results of Some (landmarks # _) \<Rightarrow> False | _ \<Rightarrow> True)"

definition completeFaces :: "detection \<Rightarrow> bool" where
  "completeFaces results =
     (case results of Some (landmarks # _) \<Rightarrow> 386 < length landmarks | _ \<Rightarrow> True)"

text \<open>
  At most one frame loop is pending, and \<^verbatim>\<open>animationFrameRef\<close> holds its handle: the
  states the hook is in when \<^verbatim>\<open>startDetection\<close> is only called while no loop runs.
\<close>

definition single_loop :: "hook_state \<Rightarrow> bool" where
  "single_loop s =
     (0 < nextHandle s \<and> animationFrameRef s \<noteq> Some 0 \<and> length (frameQueue s) \<le> 1 \<and>
      (\<forall>e \<in> set (frameQueue s). animationFrameRef s = Some (fst e)))"


text \<open>
  The reachable states in which every call of \<^verbatim>\<open>startDetection\<close> was made while
  \<^verbatim>\<open>isRunning\<close> was false: the hook as used by a caller that checks \<^verbatim>\<open>isRunning\<close>
  itself. The hook does not enforce this.
\<close>

inductive guarded :: "hook_state \<Rightarrow> bool" where
  initial: "guarded initialState"
| initialize: "guarded s \<Longrightarrow> initializeDetector outcome s = Inr s' \<Longrightarrow> guarded s'"
| start: "guarded s \<Longrightarrow> \<not> isRunning s \<Longrightarrow>
          startDetection os video canvas results s = Inr s' \<Longrightarrow> guarded s'"
| start_raises: "guarded s \<Longrightarrow> \<not> isRunning s \<Longrightarrow>
          startDetection os video canvas results s = Inl e \<Longrightarrow>
          guarded (s\<lparr>drawingUtilsRef := True, isRunning := True\<rparr>)"
| frame: "guarded s \<Longrightarrow> guarded (animationFrame v results s)"
| stop: "guarded s \<Longrightarrow> guarded (stopDetection s)"

text \<open>
  The transition rule as the specification words it, for comparison with
  \<^const>\<open>detectBlink\<close>: on a reopening frame one event and \<^verbatim>\<open>wasBlinking = true\<close> if the
  closed run was long enough and the flag was clear, else no event and
  \<^verbatim>\<open>wasBlinking = false\<close>; the counter is reset regardless.
\<close>

definition specTransition :: "options \<Rightarrow> real \<Rightarrow> debounce_state \<Rightarrow> debounce_state \<times> bool" where
  "specTransition os ear d =
     (if ear < earThreshold os
      then (d\<lparr>blinkCounterRef := blinkCounterRef d + 1\<rparr>, False)
      else if consecutiveFrames os \<le> blinkCounterRef d \<and> \<not> wasBlinkingRef d
      then (\<lparr>blinkCounterRef = 0, wasBlinkingRef = True\<rparr>, True)
      else (\<lparr>blinkCounterRef = 0, wasBlinkingRef = False\<rparr>, False))"

fun specEvents :: "options \<Rightarrow> debounce_state \<Rightarrow> real list \<Rightarrow> bool list" where
  "specEvents os d [] = []"
| "specEvents os d (ear # ears) =
     (case specTransition os ear d of (d', fired) \<Rightarrow> fired # specEvents os d' ears)"

text \<open>Concrete states and inputs used to exercise the model.\<close>

definition cleanDebounce :: debounce_state where
  "cleanDebounce = \<lparr>blinkCounterRef = 0, wasBlinkingRef = False\<rparr>"

definition exampleVideo :: video where
  "exampleVideo = \<lparr>videoWidth = 640, currentTime = 0\<rparr>"

definition exampleCanvas :: canvas where
  "exampleCanvas = \<lparr>context2d = True\<rparr>"

definition readyState :: hook_state where
  "readyState = initialState\<lparr>faceLandmarkerRef := True, isInitialized := True\<rparr>"

definition runningState :: hook_state where
  "runningState =
     \<lparr>isInitialized = True, isRunning = True, error = None, faceLandmarkerRef = True,
      animationFrameRef = Some 1,
      debounce = \<lparr>blinkCounterRef = 0, wasBlinkingRef = False\<rparr>,
      drawingUtilsRef = True, onBlinkCalls = 0,
      frameQueue = [(1, \<lparr>lastVideoTime = 0, opts = defaultOptions\<rparr>)], nextHandle = 2\<rparr>"

text \<open>
  The running hook after two frames with closed eyes (a closure that the next frame with
  open eyes would report as a blink), and the running hook after a second call of
  \<^verbatim>\<open>startDetection\<close>.
\<close>

definition midClosure :: hook_state where
  "midClosure =
     \<lparr>isInitialized = True, isRunning = True, error = None, faceLandmarkerRef = True,
      animationFrameRef = Some 3,
      debounce = \<lparr>blinkCounterRef = 2, wasBlinkingRef = False\<rparr>,
      drawingUtilsRef = True, onBlinkCalls = 0,
      frameQueue = [(3, \<lparr>lastVideoTime = 2, opts = defaultOptions\<rparr>)], nextHandle = 4\<rparr>"

definition doubleStarted :: hook_state where
  "doubleStarted =
     \<lparr>isInitialized = True, isRunning = True, error = None, faceLandmarkerRef = True,
      animationFrameRef = Some 2,
      debounce = \<lparr>blinkCounterRef = 0, wasBlinkingRef = False\<rparr>,
      drawingUtilsRef = True, onBlinkCalls = 0,
      frameQueue = [(1, \<lparr>lastVideoTime = 0, opts = defaultOptions\<rparr>),
                    (2, \<lparr>lastVideoTime = 0, opts = defaultOptions\<rparr>)],
      nextHandle = 3\<rparr>"

text \<open>
  A face whose landmarks all coincide (both eyes closed, EAR 0), and the same face with
  both eyes opened to a vertical extent equal to the eye width.
\<close>

definition closedFace :: "landmark list" where
  "closedFace = replicate 478 \<lparr>x = 0, y = 0, z = 0\<rparr>"

definition openFace :: "landmark list" where
  "openFace =
     closedFace[LEFT_EYE_TOP := \<lparr>x = 0, y = 1, z = 0\<rparr>,
                LEFT_EYE_RIGHT := \<lparr>x = 1, y = 0, z = 0\<rparr>,
                RIGHT_EYE_TOP := \<lparr>x = 0, y = 1, z = 0\<rparr>,
                RIGHT_EYE_RIGHT := \<lparr>x = 1, y = 0, z = 0\<rparr>]"

definition videoAt :: "real \<Rightarrow> video" where
  "videoAt t = \<lparr>videoWidth = 640, currentTime = t\<rparr>"

text \<open>
  Two small frames of binary64 numbers (top lid, bottom lid and inner corner, outer corner)
  for the indices 0, 1, 1, 2: an eye open by \<open>2^-53\<close>, and an eye open by a quarter.
\<close>

definition tinyLid :: "landmark list" where
  "tinyLid =
     [\<lparr>x = 0, y = 1 / 2 ^ 53, z = 0\<rparr>, \<lparr>x = 0, y = 0, z = 0\<rparr>, \<lparr>x = 1, y = 0, z = 0\<rparr>]"

text \<open>
  An eye whose upper lid is at \<^verbatim>\<open>0.2\<close> and whose outer corner is at \<^verbatim>\<open>0.9999\<close>, the
  binary64 numbers that JavaScript reads these literals as.
\<close>

definition fifthLid :: "landmark list" where
  "fifthLid =
     [\<lparr>x = 0, y = binary64 (1 / 5), z = 0\<rparr>, \<lparr>x = 0, y = 0, z = 0\<rparr>,
      \<lparr>x = binary64 (9999 / 10000), y = 0, z = 0\<rparr>]"

definition quarterLid :: "landmark list" where
  "quarterLid =
     [\<lparr>x = 0, y = 1 / 4, z = 0\<rparr>, \<lparr>x = 0, y = 0, z = 0\<rparr>, \<lparr>x = 1, y = 0, z = 0\<rparr>]"


section \<open>Action dispatcher\<close>

text \<open>
  Modelled from the spec: the action identifiers of the ActionMapping. The component that
  counts blinks into a gesture and dispatches on the count (the page that uses the hook) is
  not among the source files; only the components showing the effects are.
\<close>

datatype action = ToggleLight | ToggleFan | RaiseEmergencyAlert | OpenVoiceChannel

text \<open>
  Modelled from the spec: the static table \<^verbatim>\<open>{2: Light, 3: Fan, 5: Emergency, 6: Voice}\<close>;
  the dispatching page is not among the source files.
\<close>

definition ActionMapping :: "nat \<rightharpoonup> action" where
  "ActionMapping =
     [2 \<mapsto> ToggleLight, 3 \<mapsto> ToggleFan, 5 \<mapsto> RaiseEmergencyAlert, 6 \<mapsto> OpenVoiceChannel]"

text \<open>
  Modelled from the spec: the dispatcher of section 4.4, missing from the source files.
  Given the blink count of a finalized gesture it consults the table and invokes the mapped
  effect callback, if any; the result is the list of effects invoked, or an error.
\<close>

definition dispatch :: "nat \<Rightarrow> js_error + action list" where
  "dispatch blinkCount =
     (case ActionMapping blinkCount of
        Some a \<Rightarrow> Inr [a]
      | None \<Rightarrow> Inr [])"

section \<open>Gesture accumulator and session\<close>

text \<open>
  Modelled from the spec: the Gesture of section 3, \<^verbatim>\<open>{blinkCount, startedAt, lastBlinkAt}\<close>
  (the field \<^verbatim>\<open>blinkCount\<close> is named \<open>gestureBlinkCount\<close> here).
  No gesture, blink count per gesture or \<^verbatim>\<open>onGesture\<close> callback is among the source
  files; the hook only offers \<^verbatim>\<open>onBlink\<close>.
\<close>

record gesture =
  gestureBlinkCount :: nat
  startedAt :: real
  lastBlinkAt :: real

text \<open>
  Modelled from the spec: the state of the Gesture Accumulator of section 4.3, missing from
  the source files: its settle window, the open gesture if there is one, and the blink
  counts handed to \<^verbatim>\<open>onGesture\<close> so far.
\<close>

record accumulator =
  settleWindow :: real
  openGesture :: "gesture option"
  onGestureCalls :: "nat list"



text \<open>
  Modelled from the spec: the cancellation of section 5, missing from the source files: the
  open gesture is discarded without being finalized.
\<close>

definition discardGesture :: "accumulator \<Rightarrow> accumulator" where
  "discardGesture a = a\<lparr>openGesture := None\<rparr>"

text \<open>
  Modelled from the spec: a detection session, the hook together with the accumulator, and
  \<^verbatim>\<open>stop()\<close> of sections 5 and 6, which halts the loop and resets the DebounceState (the
  hook's \<^const>\<open>stopDetection\<close>, from the source) and discards the in-flight gesture. The
  page that joins the two is missing from the source files.
\<close>

record session =
  hook :: hook_state
  gestures :: accumulator

definition stop :: "session \<Rightarrow> session" where
  "stop sess = \<lparr>hook = stopDetection (hook sess), gestures = discardGesture (gestures sess)\<rparr>"



section \<open>Properties of the EAR calculator\<close>

lemmas eye_indices =
  LEFT_EYE_TOP_def LEFT_EYE_BOTTOM_def LEFT_EYE_LEFT_def LEFT_EYE_RIGHT_def
  RIGHT_EYE_TOP_def RIGHT_EYE_BOTTOM_def RIGHT_EYE_LEFT_def RIGHT_EYE_RIGHT_def

lemma euclidean_nonneg: "0 \<le> euclidean p q"
  by (simp add: euclidean_def)

lemma calculateEAR_in_range:
  assumes "topIdx < length landmarks" "bottomIdx < length landmarks"
    "leftIdx < length landmarks" "rightIdx < length landmarks"
  shows "calculateEAR landmarks topIdx bottomIdx leftIdx rightIdx =
           Inr (euclidean (landmarks ! topIdx) (landmarks ! bottomIdx) /
                (euclidean (landmarks ! leftIdx) (landmarks ! rightIdx) + 1 / 10000))"
  using assms by (simp add: calculateEAR_def euclidean_def Let_def)

lemma calculateEAR_raises_iff:
  "calculateEAR landmarks topIdx bottomIdx leftIdx rightIdx = Inl e \<longleftrightarrow>
     \<not> (topIdx < length landmarks \<and> bottomIdx < length landmarks \<and>
        leftIdx < length landmarks \<and> rightIdx < length landmarks)"
  by (cases e) (simp add: calculateEAR_def Let_def)

lemma closedFace_EAR:
  "calculateEAR closedFace LEFT_EYE_TOP LEFT_EYE_BOTTOM LEFT_EYE_LEFT LEFT_EYE_RIGHT = Inr 0"
  "calculateEAR closedFace RIGHT_EYE_TOP RIGHT_EYE_BOTTOM RIGHT_EYE_LEFT RIGHT_EYE_RIGHT = Inr 0"
  by (simp_all add: calculateEAR_def closedFace_def eye_indices)


text \<open>
  Claim C2. For a landmark frame and four eye indices that address landmarks of the frame,
  \<^const>\<open>calculateEAR\<close> returns the vertical distance divided by the horizontal distance
  plus \<open>1e-4\<close>, both distances Euclidean in the \<open>(x, y)\<close> coordinates of the landmarks.
  The divisor is positive, also when the eye corners coincide, so no division by zero
  occurs; and a vertical distance of 0 gives exactly 0. The only way the function raises
  is the TypeError of an index that addresses no landmark of the frame.
\<close>

theorem calculateEAR_formula:
  "(topIdx < length landmarks \<and> bottomIdx < length landmarks \<and>
    leftIdx < length landmarks \<and> rightIdx < length landmarks \<longrightarrow>
      calculateEAR landmarks topIdx bottomIdx leftIdx rightIdx =
        Inr (euclidean (landmarks ! topIdx) (landmarks ! bottomIdx) /
             (euclidean (landmarks ! leftIdx) (landmarks ! rightIdx) + 1 / 10000))
      \<and> 0 < euclidean (landmarks ! leftIdx) (landmarks ! rightIdx) + 1 / 10000
      \<and> (euclidean (landmarks ! topIdx) (landmarks ! bottomIdx) = 0 \<longrightarrow>
           calculateEAR landmarks topIdx bottomIdx leftIdx rightIdx = Inr 0))
   \<and> (calculateEAR landmarks topIdx bottomIdx leftIdx rightIdx = Inl e \<longleftrightarrow>
        \<not> (topIdx < length landmarks \<and> bottomIdx < length landmarks \<and>
           leftIdx < length landmarks \<and> rightIdx < length landmarks))"
proof -
  have pos: "0 < euclidean (landmarks ! leftIdx) (landmarks ! rightIdx) + 1 / 10000"
    using euclidean_nonneg [of "landmarks ! leftIdx" "landmarks ! rightIdx"] by simp
  show ?thesis
    using pos calculateEAR_in_range [of topIdx landmarks bottomIdx leftIdx rightIdx]
      calculateEAR_raises_iff [of landmarks topIdx bottomIdx leftIdx rightIdx e]
    by auto
qed

text \<open>
  Witness for C2: the open eye of \<^const>\<open>openFace\<close>, the coinciding landmarks of
  \<^const>\<open>closedFace\<close> (vertical and horizontal distance both 0), and an eye whose corners
  coincide while its lids are apart.
\<close>

theorem calculateEAR_formula_witness:
  "calculateEAR openFace LEFT_EYE_TOP LEFT_EYE_BOTTOM LEFT_EYE_LEFT LEFT_EYE_RIGHT =
     Inr (10000 / 10001)
   \<and> calculateEAR closedFace LEFT_EYE_TOP LEFT_EYE_BOTTOM LEFT_EYE_LEFT LEFT_EYE_RIGHT = Inr 0
   \<and> calculateEAR [\<lparr>x = 0, y = 1, z = 0\<rparr>, \<lparr>x = 0, y = 0, z = 0\<rparr>] 0 1 1 1 = Inr 10000
   \<and> calculateEAR [] 0 0 0 0 = Inl TypeError"
  using calculateEAR_formula
          [of LEFT_EYE_TOP openFace LEFT_EYE_BOTTOM LEFT_EYE_LEFT LEFT_EYE_RIGHT TypeError]
    calculateEAR_formula
          [of LEFT_EYE_TOP closedFace LEFT_EYE_BOTTOM LEFT_EYE_LEFT LEFT_EYE_RIGHT TypeError]
    calculateEAR_formula [of 0 "[\<lparr>x = 0, y = 1, z = 0\<rparr>, \<lparr>x = 0, y = 0, z = 0\<rparr>]" 1 1 1 TypeError]
    calculateEAR_formula [of 0 "[]" 0 0 0 TypeError]
  by (simp add: euclidean_def openFace_def closedFace_def eye_indices)

text \<open>
  Claim C9. The calculator depends only on the \<open>x\<close> and \<open>y\<close> coordinates of the four
  indexed landmarks: two frames that hold the four indices alike and agree there on \<open>x\<close>
  and \<open>y\<close> give the same result, whatever their \<open>z\<close> coordinates and their other
  landmarks are.
\<close>

theorem calculateEAR_ignores_z:
  assumes "\<forall>i \<in> {topIdx, bottomIdx, leftIdx, rightIdx}.
             (i < length lm1 \<longleftrightarrow> i < length lm2) \<and>
             (i < length lm1 \<longrightarrow> x (lm1 ! i) = x (lm2 ! i) \<and> y (lm1 ! i) = y (lm2 ! i))"
  shows "calculateEAR lm1 topIdx bottomIdx leftIdx rightIdx =
         calculateEAR lm2 topIdx bottomIdx leftIdx rightIdx"
  using assms by (simp add: calculateEAR_def Let_def)

text \<open>Witness for C9: two frames of different length that differ in every \<open>z\<close>.\<close>

theorem calculateEAR_ignores_z_witness:
  "calculateEAR [\<lparr>x = 0, y = 1, z = 5\<rparr>, \<lparr>x = 0, y = 0, z = - 3\<rparr>, \<lparr>x = 1, y = 0, z = 2\<rparr>] 0 1 1 2 =
   calculateEAR [\<lparr>x = 0, y = 1, z = 0\<rparr>, \<lparr>x = 0, y = 0, z = 1\<rparr>, \<lparr>x = 1, y = 0, z = 7\<rparr>,
                 \<lparr>x = 4, y = 4, z = 4\<rparr>] 0 1 1 2
   \<and> calculateEAR [\<lparr>x = 0, y = 1, z = 5\<rparr>, \<lparr>x = 0, y = 0, z = - 3\<rparr>, \<lparr>x = 1, y = 0, z = 2\<rparr>] 0 1 1 2 =
       Inr (10000 / 10001)"
proof -
  have "calculateEAR [\<lparr>x = 0, y = 1, z = 5\<rparr>, \<lparr>x = 0, y = 0, z = - 3\<rparr>, \<lparr>x = 1, y = 0, z = 2\<rparr>] 0 1 1 2 =
        calculateEAR [\<lparr>x = 0, y = 1, z = 0\<rparr>, \<lparr>x = 0, y = 0, z = 1\<rparr>, \<lparr>x = 1, y = 0, z = 7\<rparr>,
                      \<lparr>x = 4, y = 4, z = 4\<rparr>] 0 1 1 2"
    by (rule calculateEAR_ignores_z) simp
  moreover have
    "calculateEAR [\<lparr>x = 0, y = 1, z = 5\<rparr>, \<lparr>x = 0, y = 0, z = - 3\<rparr>, \<lparr>x = 1, y = 0, z = 2\<rparr>] 0 1 1 2 =
       Inr (10000 / 10001)"
    by (simp add: calculateEAR_def)
  ultimately show ?thesis by simp
qed


subsection \<open>The calculator in binary64\<close>

lemma rne_ge_floor: "\<lfloor>r\<rfloor> \<le> rne r"
  by (simp add: rne_def Let_def)

lemma binary64_zero: "binary64 0 = 0"
  by (simp add: binary64_def)

lemma binary64_pos:
  assumes "0 < r"
  shows "0 < binary64 r"
proof -
  define e where "e = real_of_int \<lfloor>log 2 \<bar>r\<bar>\<rfloor>"
  define u where "u = (2::real) powr (e - 52)"
  have u: "0 < u" by (simp add: u_def)
  have "e \<le> log 2 r" using assms by (simp add: e_def)
  then have "2 powr e \<le> 2 powr (log 2 r)" by simp
  then have "2 powr e \<le> r" using assms by simp
  moreover have "u * 2 powr 52 = 2 powr e"
    unfolding u_def by (simp only: powr_add [symmetric]) simp
  ultimately have "u * 2 powr 52 \<le> r" by simp
  then have "2 powr 52 \<le> r / u" using u by (simp add: pos_le_divide_eq mult.commute)
  moreover have "(1::real) \<le> 2 powr 52" by simp
  ultimately have "1 \<le> r / u" by linarith
  then have "1 \<le> \<lfloor>r / u\<rfloor>" by simp
  then have "0 < rne (r / u)" using rne_ge_floor [of "r / u"] by linarith
  then have "0 < of_int (rne (r / u)) * u" using u by simp
  then show ?thesis using assms by (simp add: binary64_def Let_def u_def e_def)
qed

lemma binary64_nonneg: "0 \<le> r \<Longrightarrow> 0 \<le> binary64 r"
  using binary64_pos [of r] binary64_zero by (cases "r = 0") auto

lemma floor_log2:
  assumes "0 < r" "2 powr (of_int e) \<le> r" "r < 2 powr (of_int e + 1)"
  shows "\<lfloor>log 2 r\<rfloor> = e"
proof -
  have "2 powr (of_int e) \<le> 2 powr (log 2 r)" using assms by simp
  then have "of_int e \<le> log 2 r" by simp
  moreover have "2 powr (log 2 r) < 2 powr (of_int e + 1)" using assms by simp
  then have "log 2 r < of_int e + 1" by simp
  ultimately show ?thesis by linarith
qed

text \<open>
  How \<^const>\<open>binary64\<close> is evaluated: a number that scaled by \<open>2^k\<close> lies between
  \<open>2^52\<close> and \<open>2^53\<close> is rounded at that scale.
\<close>

lemma binary64_scaled:
  assumes "2 ^ 52 \<le> r * 2 ^ k" "r * 2 ^ k < 2 ^ 53"
  shows "binary64 r = of_int (rne (r * 2 ^ k)) / 2 ^ k"
proof -
  have k: "(0::real) < 2 ^ k" by simp
  have pos: "0 < r"
  proof (rule ccontr)
    assume "\<not> 0 < r"
    then have "r * 2 ^ k \<le> 0" by (simp add: mult_le_0_iff)
    moreover have "(0::real) < 2 ^ 52" by simp
    ultimately show False using assms(1) by linarith
  qed
  have p: "(2::real) powr (of_int (52 - int k)) = 2 ^ 52 / 2 ^ k"
    by (simp add: powr_diff powr_realpow)
  have step: "(2::real) powr (a + 1) = 2 powr a * 2" for a :: real
    by (simp add: powr_add)
  have p1: "(2::real) powr (of_int (52 - int k) + 1) = 2 ^ 53 / 2 ^ k"
    unfolding step p by simp
  have lo: "2 powr of_int (52 - int k) \<le> r"
    unfolding p using assms(1) k by (simp add: divide_le_eq)
  have hi: "r < 2 powr (of_int (52 - int k) + 1)"
    unfolding p1 using assms(2) k by (simp add: less_divide_eq)
  have "\<lfloor>log 2 r\<rfloor> = 52 - int k" by (rule floor_log2 [OF pos lo hi])
  then have e: "\<lfloor>log 2 \<bar>r\<bar>\<rfloor> = 52 - int k" using pos by simp
  have u: "(2::real) powr (of_int (52 - int k) - 52) = 1 / 2 ^ k"
    by (simp add: powr_minus powr_realpow divide_simps)
  have "binary64 r = of_int (rne (r / (1 / 2 ^ k))) * (1 / 2 ^ k)"
    using pos by (simp only: binary64_def Let_def e u) simp
  then show ?thesis by simp
qed

lemma rne_near:
  assumes "\<bar>r - of_int m\<bar> < 1 / 2"
  shows "rne r = m"
proof -
  consider "of_int m \<le> r" | "r < of_int m" by linarith
  then show ?thesis
  proof cases
    case 1
    then have "\<lfloor>r\<rfloor> = m" using assms by linarith
    then show ?thesis using assms 1 by (simp add: rne_def Let_def)
  next
    case 2
    then have f: "\<lfloor>r\<rfloor> = m - 1" using assms by linarith
    have "1 / 2 < r - of_int (m - 1)" using assms 2 by simp
    then show ?thesis using f by (simp add: rne_def Let_def)
  qed
qed

lemma rne_minus: "rne (- r) = - rne r"
proof (cases "r = of_int \<lfloor>r\<rfloor>")
  case True
  then obtain n where n: "r = of_int n" ..
  have "rne (of_int n) = n" "rne (- of_int n) = - n"
    using rne_near [of "of_int n" n] rne_near [of "- of_int n" "- n"] by simp_all
  then show ?thesis by (simp add: n)
next
  case False
  define f where "f = \<lfloor>r\<rfloor>"
  have lo: "of_int f < r" using False unfolding f_def by (metis less_eq_real_def of_int_floor_le)
  have hi: "r < of_int f + 1" unfolding f_def by linarith
  have fm: "\<lfloor>- r\<rfloor> = - f - 1" using lo hi by linarith
  consider "r - of_int f < 1 / 2" | "1 / 2 < r - of_int f" | "r - of_int f = 1 / 2" by linarith
  then show ?thesis
  proof cases
    case 1
    then have "rne r = f" by (simp add: rne_def Let_def f_def)
    moreover have "rne (- r) = - f" using 1 lo by (intro rne_near) simp
    ultimately show ?thesis by simp
  next
    case 2
    then have "rne r = f + 1" using hi by (intro rne_near) simp
    moreover have "rne (- r) = - f - 1" using 2 hi by (intro rne_near) simp
    ultimately show ?thesis by simp
  next
    case 3
    then have a: "rne r = (if even f then f else f + 1)"
      by (simp add: rne_def Let_def f_def)
    have "- r - of_int (- f - 1) = 1 / 2" using 3 by simp
    then have b: "rne (- r) = (if even (- f - 1) then - f - 1 else - f - 1 + 1)"
      using fm by (simp add: rne_def Let_def)
    show ?thesis using a b by (cases "even f") auto
  qed
qed

lemma binary64_minus: "binary64 (- r) = - binary64 r"
  by (simp add: binary64_def Let_def rne_minus)

lemma binary64_near:
  assumes "2 ^ 52 \<le> r * 2 ^ k" "r * 2 ^ k < 2 ^ 53" "\<bar>r * 2 ^ k - of_int m\<bar> < 1 / 2"
  shows "binary64 r = of_int m / 2 ^ k"
  using binary64_scaled [OF assms(1,2)] rne_near [OF assms(3)] by simp

lemma binary64_sqrt_near:
  assumes "0 < m" "(2 ^ 52)\<^sup>2 \<le> q * 4 ^ k" "q * 4 ^ k < (2 ^ 53)\<^sup>2"
    and "(2 * of_int m - 1)\<^sup>2 < 4 * (q * 4 ^ k)" "4 * (q * 4 ^ k) < (2 * of_int m + 1)\<^sup>2"
  shows "binary64 (sqrt q) = of_int m / 2 ^ k"
proof -
  have h1: "(of_int m - 1 / 2)\<^sup>2 < q * 4 ^ k"
  proof -
    have "(2 * real_of_int m - 1)\<^sup>2 = 4 * (of_int m - 1 / 2)\<^sup>2"
      by (simp add: power2_eq_square algebra_simps)
    then show ?thesis using assms(4) by simp
  qed
  have h2: "q * 4 ^ k < (of_int m + 1 / 2)\<^sup>2"
  proof -
    have "(2 * real_of_int m + 1)\<^sup>2 = 4 * (of_int m + 1 / 2)\<^sup>2"
      by (simp add: power2_eq_square algebra_simps)
    then show ?thesis using assms(5) by simp
  qed
  have s: "sqrt q * 2 ^ k = sqrt (q * 4 ^ k)"
  proof -
    have "(4::real) ^ k = (2 ^ k)\<^sup>2"
      by (simp add: power2_eq_square power_mult_distrib [symmetric])
    then show ?thesis by (simp add: real_sqrt_mult)
  qed
  have "1 \<le> m" using assms(1) by simp
  then have "(1::real) \<le> of_int m" by (metis of_int_1_le_iff)
  then have m: "(0::real) < of_int m - 1 / 2" by simp
  have "2 ^ 52 \<le> sqrt (q * 4 ^ k)" using assms(2) by (intro real_le_rsqrt)
  moreover have "sqrt (q * 4 ^ k) < 2 ^ 53" using assms(3) by (intro real_less_lsqrt) simp_all
  moreover have "of_int m - 1 / 2 < sqrt (q * 4 ^ k)" using h1 m by (intro real_less_rsqrt)
  moreover have "sqrt (q * 4 ^ k) < of_int m + 1 / 2" using h2 m by (intro real_less_lsqrt) simp_all
  ultimately have "2 ^ 52 \<le> sqrt q * 2 ^ k" "sqrt q * 2 ^ k < 2 ^ 53"
    "\<bar>sqrt q * 2 ^ k - of_int m\<bar> < 1 / 2"
    unfolding s by linarith+
  then show ?thesis by (rule binary64_near)
qed

lemma rne_tie: "r = of_int f + 1 / 2 \<Longrightarrow> rne r = (if even f then f else f + 1)"
proof -
  assume r: "r = of_int f + 1 / 2"
  then have "\<lfloor>r\<rfloor> = f" by linarith
  then show ?thesis using r by (simp add: rne_def Let_def)
qed

lemma binary64_tie:
  assumes "2 ^ 52 \<le> r * 2 ^ k" "r * 2 ^ k < 2 ^ 53" "r * 2 ^ k = of_int f + 1 / 2"
  shows "binary64 r = of_int (if even f then f else f + 1) / 2 ^ k"
  using binary64_scaled [OF assms(1,2)] rne_tie [OF assms(3)] by simp

lemma binary64_one: "binary64 1 = 1"
  using binary64_scaled [of 1 52] by (simp add: rne_def)

lemma binary64_half: "binary64 (1 / 2) = 1 / 2"
  using binary64_scaled [of "1 / 2" 53] by (simp add: rne_def)

lemma binary64_quarter: "binary64 (1 / 4) = 1 / 4"
  using binary64_scaled [of "1 / 4" 54] by (simp add: rne_def)

lemma binary64_three_halves: "binary64 (3 / 2) = 3 / 2"
  using binary64_scaled [of "3 / 2" 52] by (simp add: rne_def)

text \<open>\<open>1 + 2^-53\<close> lies halfway between 1 and the next binary64 number, and rounds to 1.\<close>

lemma binary64_one_plus: "binary64 (1 / 2 ^ 53 + 1) = 1"
proof -
  have "binary64 (1 / 2 ^ 53 + 1) = of_int (rne ((1 / 2 ^ 53 + 1) * 2 ^ 52)) / 2 ^ 52"
    by (rule binary64_scaled) simp_all
  moreover have "((1 / 2 ^ 53 + 1) * 2 ^ 52 :: real) = 4503599627370496 + 1 / 2" by simp
  moreover have "rne (4503599627370496 + 1 / 2) = 4503599627370496"
  proof -
    have "\<lfloor>4503599627370496 + 1 / 2 :: real\<rfloor> = 4503599627370496" by linarith
    then show ?thesis by (simp add: rne_def Let_def)
  qed
  ultimately show ?thesis by simp
qed

lemma distance64_nonneg:
  "0 \<le> binary64 (sqrt (binary64 (binary64 (a\<^sup>2) + binary64 (b\<^sup>2))))"
  by (intro binary64_nonneg real_sqrt_ge_zero add_nonneg_nonneg) simp_all

lemma distance64_pos:
  assumes "b \<noteq> 0"
  shows "0 < binary64 (sqrt (binary64 (binary64 (a\<^sup>2) + binary64 (b\<^sup>2))))"
proof -
  have "0 < binary64 (b\<^sup>2)" using assms by (intro binary64_pos) simp
  moreover have "0 \<le> binary64 (a\<^sup>2)" by (intro binary64_nonneg) simp
  ultimately have "0 < binary64 (binary64 (a\<^sup>2) + binary64 (b\<^sup>2))"
    by (intro binary64_pos) linarith
  then show ?thesis by (intro binary64_pos) simp
qed

lemma divisor64_pos:
  "0 < binary64 (binary64 (sqrt (binary64 (binary64 (a\<^sup>2) + binary64 (b\<^sup>2)))) +
                 binary64 (1 / 10000))"
proof -
  have "0 < binary64 (1 / 10000)" by (intro binary64_pos) simp
  then show ?thesis using distance64_nonneg [of a b] by (intro binary64_pos) linarith
qed

text \<open>
  What is proved of the exact calculator about raising, about a vertical distance of 0 and
  about the \<open>z\<close> coordinates holds of the binary64 calculator as well.
\<close>

lemma calculateEAR64_raises_iff:
  "calculateEAR64 landmarks topIdx bottomIdx leftIdx rightIdx = Inl e \<longleftrightarrow>
   calculateEAR landmarks topIdx bottomIdx leftIdx rightIdx = Inl e"
  by (cases e) (simp add: calculateEAR64_def calculateEAR_def Let_def)

lemma calculateEAR64_zero:
  assumes "topIdx < length landmarks" "bottomIdx < length landmarks"
    "leftIdx < length landmarks" "rightIdx < length landmarks"
    and "x (landmarks ! topIdx) = x (landmarks ! bottomIdx)"
    and "y (landmarks ! topIdx) = y (landmarks ! bottomIdx)"
  shows "calculateEAR64 landmarks topIdx bottomIdx leftIdx rightIdx = Inr 0"
  using assms by (simp add: calculateEAR64_def Let_def binary64_zero)

lemma calculateEAR64_ignores_z:
  assumes "\<forall>i \<in> {topIdx, bottomIdx, leftIdx, rightIdx}.
             (i < length lm1 \<longleftrightarrow> i < length lm2) \<and>
             (i < length lm1 \<longrightarrow> x (lm1 ! i) = x (lm2 ! i) \<and> y (lm1 ! i) = y (lm2 ! i))"
  shows "calculateEAR64 lm1 topIdx bottomIdx leftIdx rightIdx =
         calculateEAR64 lm2 topIdx bottomIdx leftIdx rightIdx"
  using assms by (simp add: calculateEAR64_def Let_def)

lemma tinyLid_EAR64: "calculateEAR64 tinyLid 0 1 1 2 \<noteq> Inr 0"
proof -
  have v: "0 < binary64 (sqrt (binary64 (binary64 ((binary64 (0 - 0))\<^sup>2) +
                                   binary64 ((binary64 (1 / 2 ^ 53 - 0))\<^sup>2))))"
    by (intro distance64_pos) (use binary64_pos [of "1 / 2 ^ 53 - 0"] in simp)
  have d: "0 < binary64 (binary64 (sqrt (binary64 (binary64 ((binary64 (0 - 1))\<^sup>2) +
                                   binary64 ((binary64 (0 - 0))\<^sup>2)))) + binary64 (1 / 10000))"
    by (rule divisor64_pos)
  have "0 < binary64 (binary64 (sqrt (binary64 (binary64 ((binary64 (0 - 0))\<^sup>2) +
                                   binary64 ((binary64 (1 / 2 ^ 53 - 0))\<^sup>2)))) /
             binary64 (binary64 (sqrt (binary64 (binary64 ((binary64 (0 - 1))\<^sup>2) +
                                   binary64 ((binary64 (0 - 0))\<^sup>2)))) + binary64 (1 / 10000)))"
    using v d by (intro binary64_pos) (rule divide_pos_pos)
  then show ?thesis by (simp add: calculateEAR64_def tinyLid_def Let_def)
qed

lemma tinyLid_translate64:
  "translate64 0 1 0 tinyLid =
     [\<lparr>x = 0, y = 1, z = 0\<rparr>, \<lparr>x = 0, y = 1, z = 0\<rparr>, \<lparr>x = 1, y = 1, z = 0\<rparr>]"
  using binary64_one_plus
  by (simp add: translate64_def tinyLid_def binary64_zero binary64_one)

lemma quarterLid_translate64:
  "translate64 (1 / 2) (1 / 4) 1 quarterLid = translate (1 / 2) (1 / 4) 1 quarterLid"
  by (simp add: translate64_def translate_def quarterLid_def binary64_one binary64_half
      binary64_quarter binary64_three_halves)

text \<open>
  The EAR of \<^const>\<open>fifthLid\<close> and of its translate by \<^verbatim>\<open>(0.1, 0.1, 0)\<close>, each rounding
  evaluated: \<^verbatim>\<open>0.2\<close> for the frame and \<^verbatim>\<open>0.19999999999999998\<close> for the translate.
\<close>

lemma fifthLid_values:
  "calculateEAR64 fifthLid 0 1 1 2 = Inr (binary64 (1 / 5))"
  "translate64 (binary64 (1 / 10)) (binary64 (1 / 10)) 0 fifthLid =
     [\<lparr>x = 3602879701896397 / 36028797018963968, y = 1351079888211149 / 4503599627370496, z = 0\<rparr>,
      \<lparr>x = 3602879701896397 / 36028797018963968, y = 3602879701896397 / 36028797018963968, z = 0\<rparr>,
      \<lparr>x = 4953509230144809 / 4503599627370496, y = 3602879701896397 / 36028797018963968, z = 0\<rparr>]"
  "calculateEAR64
     (translate64 (binary64 (1 / 10)) (binary64 (1 / 10)) 0 fifthLid) 0 1 1 2 =
     Inr (7205759403792793 / 36028797018963968)"
  "7205759403792793 / 36028797018963968 < binary64 (1 / 5)"
proof -
  have s0: "binary64 (1 / 10000) = 7378697629483821 / 73786976294838206464"
    using binary64_near [of "1 / 10000" 66 7378697629483821] by simp
  have s1: "binary64 (1 / 5) = 3602879701896397 / 18014398509481984"
    using binary64_near [of "1 / 5" 55 7205759403792794] by simp
  have s2: "binary64 (9999 / 10000) = 4503149267407759 / 4503599627370496"
    using binary64_near [of "9999 / 10000" 53 9006298534815518] by simp
  have s3: "binary64 (1 / 10) = 3602879701896397 / 36028797018963968"
    using binary64_near [of "1 / 10" 56 7205759403792794] by simp
  have s4: "binary64 (3602879701896397 / 18014398509481984) =
      3602879701896397 / 18014398509481984"
    using binary64_near [of "3602879701896397 / 18014398509481984" 55 7205759403792794] by simp
  have s5: "binary64 (12980742146337070512478121581609 / 324518553658426726783156020576256) =
      1441151880758559 / 36028797018963968"
    using binary64_near
            [of "12980742146337070512478121581609 / 324518553658426726783156020576256" 57 5764607523034236]
    by simp
  have s6: "binary64 (1441151880758559 / 36028797018963968) =
      1441151880758559 / 36028797018963968"
    using binary64_near [of "1441151880758559 / 36028797018963968" 57 5764607523034236] by simp
  have s7: "binary64 (sqrt (1441151880758559 / 36028797018963968)) =
      3602879701896397 / 18014398509481984"
    using binary64_sqrt_near
            [of 7205759403792794 "1441151880758559 / 36028797018963968" 55]
    by simp
  have s8: "binary64 (4503149267407759 / 4503599627370496) =
      4503149267407759 / 4503599627370496"
    using binary64_near [of "4503149267407759 / 4503599627370496" 53 9006298534815518] by simp
  have s9: "binary64 (20278353324555036573091573402081 / 20282409603651670423947251286016) =
      9005397904962037 / 9007199254740992"
    using binary64_near
            [of "20278353324555036573091573402081 / 20282409603651670423947251286016" 53 9005397904962037]
    by simp
  have s10: "binary64 (9005397904962037 / 9007199254740992) =
      9005397904962037 / 9007199254740992"
    using binary64_near [of "9005397904962037 / 9007199254740992" 53 9005397904962037] by simp
  have s11: "binary64 (sqrt (9005397904962037 / 9007199254740992)) =
      4503149267407759 / 4503599627370496"
    using binary64_sqrt_near
            [of 9006298534815518 "9005397904962037 / 9007199254740992" 53]
    by simp
  have s12: "binary64 (73786976294838207277 / 73786976294838206464) = 1"
    using binary64_near
            [of "73786976294838207277 / 73786976294838206464" 52 4503599627370496]
    by simp
  have s13: "binary64 (3602879701896397 / 36028797018963968) =
      3602879701896397 / 36028797018963968"
    using binary64_near [of "3602879701896397 / 36028797018963968" 56 7205759403792794] by simp
  have s14: "binary64 (10808639105689191 / 36028797018963968) =
      1351079888211149 / 4503599627370496"
    using binary64_tie [of "10808639105689191 / 36028797018963968" 54 5404319552844595] by simp
  have s15: "binary64 (39628073841158469 / 36028797018963968) =
      4953509230144809 / 4503599627370496"
    using binary64_near
            [of "39628073841158469 / 36028797018963968" 52 4953509230144809]
    by simp
  have s16: "binary64 (7205759403792795 / 36028797018963968) =
      7205759403792795 / 36028797018963968"
    using binary64_near [of "7205759403792795 / 36028797018963968" 55 7205759403792795] by simp
  have s17: "binary64 (51922968585348296461431293912025 / 1298074214633706907132624082305024) =
      5764607523034237 / 144115188075855872"
    using binary64_near
            [of "51922968585348296461431293912025 / 1298074214633706907132624082305024" 57 5764607523034237]
    by simp
  have s18: "binary64 (5764607523034237 / 144115188075855872) =
      5764607523034237 / 144115188075855872"
    using binary64_near
            [of "5764607523034237 / 144115188075855872" 57 5764607523034237]
    by simp
  have s19: "binary64 (sqrt (5764607523034237 / 144115188075855872)) =
      7205759403792795 / 36028797018963968"
    using binary64_sqrt_near
            [of 7205759403792795 "5764607523034237 / 144115188075855872" 55]
    by simp
  have s20: "binary64 (36025194139262075 / 36028797018963968) =
      9006298534815519 / 9007199254740992"
    using binary64_near
            [of "36025194139262075 / 36028797018963968" 53 9006298534815519]
    by simp
  have s21: "binary64 (81113413298220164304963363239361 / 81129638414606681695789005144064) =
      9005397904962039 / 9007199254740992"
    using binary64_near
            [of "81113413298220164304963363239361 / 81129638414606681695789005144064" 53 9005397904962039]
    by simp
  have s22: "binary64 (9005397904962039 / 9007199254740992) =
      9005397904962039 / 9007199254740992"
    using binary64_near [of "9005397904962039 / 9007199254740992" 53 9005397904962039] by simp
  have s23: "binary64 (sqrt (9005397904962039 / 9007199254740992)) =
      9006298534815519 / 9007199254740992"
    using binary64_sqrt_near
            [of 9006298534815519 "9005397904962039 / 9007199254740992" 53]
    by simp
  have s24: "binary64 (73786976294838215469 / 73786976294838206464) =
      4503599627370497 / 4503599627370496"
    using binary64_near
            [of "73786976294838215469 / 73786976294838206464" 52 4503599627370497]
    by simp
  have s25: "binary64 (7205759403792795 / 36028797018963976) =
      7205759403792793 / 36028797018963968"
    using binary64_near [of "7205759403792795 / 36028797018963976" 55 7205759403792793] by simp
  note steps = s0 s1 s2 s3 s4 s5 s6 s7 s8 s9 s10 s11 s12
    s13 s14 s15 s16 s17 s18 s19 s20 s21 s22 s23 s24 s25
  show "calculateEAR64 fifthLid 0 1 1 2 = Inr (binary64 (1 / 5))"
    by (simp add: calculateEAR64_def fifthLid_def binary64_zero binary64_minus power_divide
        steps)
  show t: "translate64 (binary64 (1 / 10)) (binary64 (1 / 10)) 0 fifthLid =
     [\<lparr>x = 3602879701896397 / 36028797018963968, y = 1351079888211149 / 4503599627370496, z = 0\<rparr>,
      \<lparr>x = 3602879701896397 / 36028797018963968, y = 3602879701896397 / 36028797018963968, z = 0\<rparr>,
      \<lparr>x = 4953509230144809 / 4503599627370496, y = 3602879701896397 / 36028797018963968, z = 0\<rparr>]"
    by (simp add: translate64_def fifthLid_def binary64_zero steps)
  show "calculateEAR64
     (translate64 (binary64 (1 / 10)) (binary64 (1 / 10)) 0 fifthLid) 0 1 1 2 =
     Inr (7205759403792793 / 36028797018963968)"
    by (simp only: t)
       (simp add: calculateEAR64_def binary64_zero binary64_minus power_divide steps)
  show "7205759403792793 / 36028797018963968 < binary64 (1 / 5)"
    by (simp add: steps)
qed

text \<open>
  Counterexample for C7 as stated. The frame \<^const>\<open>fifthLid\<close> has EAR \<^verbatim>\<open>0.2\<close>, which is
  not below the threshold \<^verbatim>\<open>0.2\<close>. Adding the offset \<^verbatim>\<open>(0.1, 0.1, 0)\<close> to every
  landmark gives, in binary64, a frame whose EAR is \<^verbatim>\<open>0.19999999999999998\<close>, below the
  threshold: the computed EAR is not left unchanged. Likewise the frame \<^const>\<open>tinyLid\<close>,
  with its lids \<open>2^-53\<close> apart, has an EAR that is not 0, and moved by \<open>(0, 1, 0)\<close> its lids
  coincide (\<open>1 + 2^-53\<close> rounds to 1) and its EAR is 0.
\<close>

theorem calculateEAR64_translation_counterexample:
  "calculateEAR64 fifthLid 0 1 1 2 = Inr (binary64 (1 / 5))
   \<and> calculateEAR64
        (translate64 (binary64 (1 / 10)) (binary64 (1 / 10)) 0 fifthLid) 0 1 1 2 =
       Inr (7205759403792793 / 36028797018963968)
   \<and> 7205759403792793 / 36028797018963968 < binary64 (1 / 5)
   \<and> calculateEAR64
        (translate64 (binary64 (1 / 10)) (binary64 (1 / 10)) 0 fifthLid) 0 1 1 2 \<noteq>
       calculateEAR64 fifthLid 0 1 1 2
   \<and> calculateEAR64 (translate64 0 1 0 tinyLid) 0 1 1 2 = Inr 0
   \<and> calculateEAR64 tinyLid 0 1 1 2 \<noteq> Inr 0
   \<and> calculateEAR64 (translate64 0 1 0 tinyLid) 0 1 1 2 \<noteq> calculateEAR64 tinyLid 0 1 1 2"
proof -
  have t: "calculateEAR64 (translate64 0 1 0 tinyLid) 0 1 1 2 = Inr 0"
    by (simp add: tinyLid_translate64 calculateEAR64_def binary64_zero)
  have "calculateEAR64
        (translate64 (binary64 (1 / 10)) (binary64 (1 / 10)) 0 fifthLid) 0 1 1 2 \<noteq>
       calculateEAR64 fifthLid 0 1 1 2"
    using fifthLid_values(4) by (simp only: fifthLid_values(1,3)) simp
  then show ?thesis using t tinyLid_EAR64 fifthLid_values(1,3,4) by simp
qed

text \<open>
  Claim C7, amended. The EAR is invariant under a uniform translation of all landmark
  coordinates whose sums are exact: when every translated coordinate is the coordinate plus
  the offset, without rounding, the binary64 calculator returns for the translated frame
  what it returns for the frame, because it reads the coordinates only through differences
  of two landmarks. (When the sums are rounded, the counterexample applies.)
\<close>

theorem calculateEAR64_exact_translation_invariant:
  "calculateEAR64 (translate dx dy dz landmarks) topIdx bottomIdx leftIdx rightIdx =
   calculateEAR64 landmarks topIdx bottomIdx leftIdx rightIdx"
  by (simp add: calculateEAR64_def translate_def Let_def)

text \<open>
  Witness for C7: the frame \<^const>\<open>quarterLid\<close> and the offset \<open>(1/2, 1/4, 1)\<close>, whose sums
  are binary64 numbers, so that the translation in binary64 is the exact one.
\<close>

theorem calculateEAR64_exact_translation_invariant_witness:
  "translate64 (1 / 2) (1 / 4) 1 quarterLid = translate (1 / 2) (1 / 4) 1 quarterLid
   \<and> calculateEAR64 (translate64 (1 / 2) (1 / 4) 1 quarterLid) 0 1 1 2 =
       calculateEAR64 quarterLid 0 1 1 2"
  using calculateEAR64_exact_translation_invariant [of "1 / 2" "1 / 4" 1 quarterLid 0 1 1 2]
    quarterLid_translate64
  by simp


section \<open>Properties of the blink debouncer\<close>

lemma detectBlink_closed:
  "avgEAR < earThreshold os \<Longrightarrow>
     detectBlink os avgEAR d = (d\<lparr>blinkCounterRef := blinkCounterRef d + 1\<rparr>, False)"
  by (simp add: detectBlink_def)

lemma detectBlink_reopened:
  assumes "\<not> avgEAR < earThreshold os"
  shows "snd (detectBlink os avgEAR d) =
           (consecutiveFrames os \<le> blinkCounterRef d \<and> \<not> wasBlinkingRef d)"
    and "wasBlinkingRef (fst (detectBlink os avgEAR d)) = (consecutiveFrames os \<le> blinkCounterRef d)"
    and "blinkCounterRef (fst (detectBlink os avgEAR d)) = 0"
  using assms by (simp_all add: detectBlink_def)

lemma blinkEvents_one_blink:
  "blinkEvents defaultOptions \<lparr>blinkCounterRef = 0, wasBlinkingRef = False\<rparr>
     [3 / 10, 3 / 10, 3 / 20, 3 / 20, 3 / 10] = [False, False, False, False, True]"
  by (simp add: detectBlink_def defaultOptions_def)

lemma blinkEvents_noise:
  "blinkEvents defaultOptions \<lparr>blinkCounterRef = 0, wasBlinkingRef = False\<rparr>
     [3 / 10, 3 / 20, 3 / 10] = [False, False, False]"
  by (simp add: detectBlink_def defaultOptions_def)

text \<open>
  Counterexample for C1 as stated. The claim has every reopening frame that emits nothing
  set \<^verbatim>\<open>wasBlinking\<close> to false. With a closed run of 2 frames and the flag already set,
  the frame with EAR 0.3 is a reopening frame on which the emission condition fails, yet the
  code leaves the flag set. The difference shows in the events: of three closures of two
  frames, each followed by a single open frame, the code reports the first only, where
  the rule as worded reports the first and the third.
\<close>

theorem detectBlink_keeps_flag_counterexample:
  "\<not> (3 / 10 < earThreshold defaultOptions)
   \<and> \<not> (consecutiveFrames defaultOptions \<le> blinkCounterRef \<lparr>blinkCounterRef = 2, wasBlinkingRef = True\<rparr>
        \<and> \<not> wasBlinkingRef \<lparr>blinkCounterRef = 2, wasBlinkingRef = True\<rparr>)
   \<and> wasBlinkingRef
        (fst (detectBlink defaultOptions (3 / 10) \<lparr>blinkCounterRef = 2, wasBlinkingRef = True\<rparr>))
        \<noteq> False
   \<and> detectBlink defaultOptions (3 / 10) \<lparr>blinkCounterRef = 2, wasBlinkingRef = True\<rparr>
        \<noteq> specTransition defaultOptions (3 / 10) \<lparr>blinkCounterRef = 2, wasBlinkingRef = True\<rparr>
   \<and> blinkEvents defaultOptions cleanDebounce
        [1 / 10, 1 / 10, 3 / 10, 1 / 10, 1 / 10, 3 / 10, 1 / 10, 1 / 10, 3 / 10]
        = [False, False, True, False, False, False, False, False, False]
   \<and> specEvents defaultOptions cleanDebounce
        [1 / 10, 1 / 10, 3 / 10, 1 / 10, 1 / 10, 3 / 10, 1 / 10, 1 / 10, 3 / 10]
        = [False, False, True, False, False, False, False, False, True]"
  by (simp add: detectBlink_def specTransition_def defaultOptions_def cleanDebounce_def)

text \<open>
  Claim C1, amended. On a frame with EAR below the threshold the debouncer increments the
  counter of closed frames and emits nothing. On a frame with EAR at or above the threshold
  it emits one blink event if and only if the counter has reached
  \<^verbatim>\<open>consecutiveFrames\<close> and \<^verbatim>\<open>wasBlinking\<close> is false; afterwards \<^verbatim>\<open>wasBlinking\<close> is true
  exactly when the counter had reached \<^verbatim>\<open>consecutiveFrames\<close> (so it stays true when it
  was already true and nothing is emitted, and is set false only after a shorter run), and
  the counter is 0. From the initial state, with threshold 0.2 and 2 frames, the sequence
  \<open>[0.3, 0.3, 0.15, 0.15, 0.3]\<close> emits one event, at the final frame, and
  \<open>[0.3, 0.15, 0.3]\<close> emits none.
\<close>

theorem detectBlink_transition:
  "(avgEAR < earThreshold os \<longrightarrow>
      detectBlink os avgEAR d = (d\<lparr>blinkCounterRef := blinkCounterRef d + 1\<rparr>, False))
   \<and> (\<not> avgEAR < earThreshold os \<longrightarrow>
        snd (detectBlink os avgEAR d) =
          (consecutiveFrames os \<le> blinkCounterRef d \<and> \<not> wasBlinkingRef d)
        \<and> wasBlinkingRef (fst (detectBlink os avgEAR d)) =
            (consecutiveFrames os \<le> blinkCounterRef d)
        \<and> blinkCounterRef (fst (detectBlink os avgEAR d)) = 0)
   \<and> blinkEvents defaultOptions \<lparr>blinkCounterRef = 0, wasBlinkingRef = False\<rparr>
        [3 / 10, 3 / 10, 3 / 20, 3 / 20, 3 / 10] = [False, False, False, False, True]
   \<and> blinkEvents defaultOptions \<lparr>blinkCounterRef = 0, wasBlinkingRef = False\<rparr>
        [3 / 10, 3 / 20, 3 / 10] = [False, False, False]"
  using detectBlink_closed [of avgEAR os d] detectBlink_reopened [of avgEAR os d]
    blinkEvents_one_blink blinkEvents_noise
  by blast

text \<open>
  Witness for C1: a second closed frame, the reopening frame that emits the blink, and a
  reopening frame after a single closed frame.
\<close>

theorem detectBlink_transition_witness:
  "detectBlink defaultOptions (3 / 20) \<lparr>blinkCounterRef = 1, wasBlinkingRef = False\<rparr> =
     (\<lparr>blinkCounterRef = 2, wasBlinkingRef = False\<rparr>, False)
   \<and> detectBlink defaultOptions (3 / 10) \<lparr>blinkCounterRef = 2, wasBlinkingRef = False\<rparr> =
       (\<lparr>blinkCounterRef = 0, wasBlinkingRef = True\<rparr>, True)
   \<and> detectBlink defaultOptions (3 / 10) \<lparr>blinkCounterRef = 1, wasBlinkingRef = False\<rparr> =
       (\<lparr>blinkCounterRef = 0, wasBlinkingRef = False\<rparr>, False)"
proof -
  have thr: "(3 / 20 :: real) < earThreshold defaultOptions" "\<not> (3 / 10 :: real) < earThreshold defaultOptions"
    and n: "consecutiveFrames defaultOptions = 2"
    by (simp_all add: defaultOptions_def)
  have a: "detectBlink defaultOptions (3 / 20) \<lparr>blinkCounterRef = 1, wasBlinkingRef = False\<rparr> =
             (\<lparr>blinkCounterRef = 2, wasBlinkingRef = False\<rparr>, False)"
    using detectBlink_transition
            [of "3 / 20" defaultOptions "\<lparr>blinkCounterRef = 1, wasBlinkingRef = False\<rparr>"] thr(1)
    by simp
  have b: "detectBlink defaultOptions (3 / 10) \<lparr>blinkCounterRef = 2, wasBlinkingRef = False\<rparr> =
             (\<lparr>blinkCounterRef = 0, wasBlinkingRef = True\<rparr>, True)"
    using detectBlink_transition
            [of "3 / 10" defaultOptions "\<lparr>blinkCounterRef = 2, wasBlinkingRef = False\<rparr>"] thr(2) n
    by (cases "detectBlink defaultOptions (3 / 10) \<lparr>blinkCounterRef = 2, wasBlinkingRef = False\<rparr>")
       simp
  have c: "detectBlink defaultOptions (3 / 10) \<lparr>blinkCounterRef = 1, wasBlinkingRef = False\<rparr> =
             (\<lparr>blinkCounterRef = 0, wasBlinkingRef = False\<rparr>, False)"
    using detectBlink_transition
            [of "3 / 10" defaultOptions "\<lparr>blinkCounterRef = 1, wasBlinkingRef = False\<rparr>"] thr(2) n
    by (cases "detectBlink defaultOptions (3 / 10) \<lparr>blinkCounterRef = 1, wasBlinkingRef = False\<rparr>")
       simp
  show ?thesis using a b c by simp
qed


section \<open>Properties of the action dispatcher\<close>

text \<open>
  Claim C6. Given the blink count of a finalized gesture, the dispatcher invokes exactly the
  effect the table \<open>{2: Light, 3: Fan, 5: Emergency, 6: Voice}\<close> maps the count to, and for
  every other count it invokes no effect; it surfaces no error for any count.
\<close>

theorem dispatch_mapping:
  "dispatch blinkCount =
     Inr (if blinkCount = 2 then [ToggleLight]
          else if blinkCount = 3 then [ToggleFan]
          else if blinkCount = 5 then [RaiseEmergencyAlert]
          else if blinkCount = 6 then [OpenVoiceChannel]
          else [])"
  by (simp add: dispatch_def ActionMapping_def)

text \<open>Witness for C6: two blinks toggle the light and nothing else, four blinks do nothing.\<close>

theorem dispatch_mapping_witness:
  "dispatch 2 = Inr [ToggleLight] \<and> dispatch 4 = Inr [] \<and> dispatch 5 = Inr [RaiseEmergencyAlert]"
  using dispatch_mapping [of 2] dispatch_mapping [of 4] dispatch_mapping [of 5]
  by simp


section \<open>Properties of the frame loop\<close>

lemma rearm_fields:
  "debounce (rearm l s) = debounce s"
  "onBlinkCalls (rearm l s) = onBlinkCalls s"
  "isRunning (rearm l s) = isRunning s"
  "isInitialized (rearm l s) = isInitialized s"
  "error (rearm l s) = error s"
  "faceLandmarkerRef (rearm l s) = faceLandmarkerRef s"
  "drawingUtilsRef (rearm l s) = drawingUtilsRef s"
  "frameQueue (rearm l s) = frameQueue s @ [(nextHandle s, l)]"
  "animationFrameRef (rearm l s) = Some (nextHandle s)"
  "nextHandle (rearm l s) = nextHandle s + 1"
  by (simp_all add: rearm_def requestAnimationFrame_def)

lemma faceless_iff: "faceless results \<longleftrightarrow> results = None \<or> results = Some []"
  by (simp add: faceless_def split: option.splits list.splits)

lemma processLandmarks_faceless:
  "faceless results \<Longrightarrow> processLandmarks os results s = Inr s"
  by (simp add: processLandmarks_def faceless_def split: option.splits list.splits)

lemma processLandmarks_fields:
  assumes "processLandmarks os results s = Inr s'"
  shows "isRunning s' = isRunning s" "isInitialized s' = isInitialized s" "error s' = error s"
    "faceLandmarkerRef s' = faceLandmarkerRef s" "drawingUtilsRef s' = drawingUtilsRef s"
    "frameQueue s' = frameQueue s" "animationFrameRef s' = animationFrameRef s"
    "nextHandle s' = nextHandle s"
  using assms
  by (auto simp add: processLandmarks_def Let_def
      split: option.splits list.splits sum.splits prod.splits)

lemma processLandmarks_returns:
  "completeFaces results \<Longrightarrow> \<exists>s'. processLandmarks os results s = Inr s'"
  by (auto simp add: processLandmarks_def completeFaces_def Let_def calculateEAR_raises_iff
      eye_indices split: option.splits list.splits sum.splits prod.splits)


lemma processLandmarks_closedFace:
  "processLandmarks defaultOptions (Some [closedFace]) s =
     Inr (s\<lparr>debounce := (debounce s)\<lparr>blinkCounterRef := blinkCounterRef (debounce s) + 1\<rparr>\<rparr>)"
  by (simp add: processLandmarks_def closedFace_EAR detectBlink_def defaultOptions_def)

lemma detectFrame_returns:
  "completeFaces results \<Longrightarrow> \<exists>s'. detectFrame l v results s = Inr s'"
  using processLandmarks_returns [of results "opts l" s]
  by (auto simp add: detectFrame_def split: sum.splits)

lemma detectFrame_fields:
  assumes "detectFrame l v results s = Inr s'"
  shows "isRunning s' = isRunning s" "isInitialized s' = isInitialized s" "error s' = error s"
    "faceLandmarkerRef s' = faceLandmarkerRef s" "drawingUtilsRef s' = drawingUtilsRef s"
    "\<exists>l'. frameQueue s' = frameQueue s @ [(nextHandle s, l')] \<and> opts l' = opts l"
    "animationFrameRef s' = Some (nextHandle s)"
    "nextHandle s' = nextHandle s + 1"
  using assms
  by (auto simp add: detectFrame_def rearm_fields processLandmarks_fields
      split: if_splits sum.splits)

lemma detectFrame_faceless:
  assumes "faceless results"
  shows "\<exists>s'. detectFrame l v results s = Inr s' \<and> debounce s' = debounce s \<and>
              onBlinkCalls s' = onBlinkCalls s"
  using assms by (simp add: detectFrame_def processLandmarks_faceless rearm_fields)


lemma runCallback_faceless:
  assumes "faceless results"
  shows "debounce (runCallback v results l s) = debounce s \<and>
         onBlinkCalls (runCallback v results l s) = onBlinkCalls s"
  using detectFrame_faceless [OF assms, of l v s] by (auto simp add: runCallback_def)

lemma fold_runCallback_faceless:
  assumes "faceless results"
  shows "debounce (fold (\<lambda>(h, l). runCallback v results l) q s) = debounce s \<and>
         onBlinkCalls (fold (\<lambda>(h, l). runCallback v results l) q s) = onBlinkCalls s"
proof (induction q arbitrary: s)
  case Nil
  then show ?case by simp
next
  case (Cons a q)
  obtain h l where a: "a = (h, l)" by (cases a)
  show ?case
    using Cons.IH [of "runCallback v results l s"] runCallback_faceless [OF assms, of v l s]
    by (simp add: a)
qed

lemma animationFrame_faceless:
  assumes "faceless results"
  shows "debounce (animationFrame v results s) = debounce s \<and>
         onBlinkCalls (animationFrame v results s) = onBlinkCalls s"
  using fold_runCallback_faceless [OF assms, of v "frameQueue s" "s\<lparr>frameQueue := []\<rparr>"]
  by (simp add: animationFrame_def)

lemma animationFrame_idle: "frameQueue s = [] \<Longrightarrow> animationFrame v results s = s"
  by (simp add: animationFrame_def)



lemma start_runningState:
  "startDetection defaultOptions (Some exampleVideo) (Some exampleCanvas) None readyState =
     Inr runningState"
  by (simp add: startDetection_def detectFrame_def processLandmarks_def rearm_def
      requestAnimationFrame_def readyState_def runningState_def initialState_def
      exampleVideo_def exampleCanvas_def)



lemma start_doubleStarted:
  "startDetection defaultOptions (Some exampleVideo) (Some exampleCanvas) None runningState =
     Inr doubleStarted"
  by (simp add: startDetection_def detectFrame_def processLandmarks_def rearm_def
      requestAnimationFrame_def runningState_def doubleStarted_def exampleVideo_def
      exampleCanvas_def)

text \<open>
  Claim C3. On a frame in which no face is detected (\<^verbatim>\<open>faceLandmarks\<close> absent or empty)
  the frame callback returns normally and leaves the debounce state as it was: the counter
  of closed frames is neither incremented nor reset, \<^verbatim>\<open>wasBlinking\<close> is unchanged and no
  blink event is emitted. The same holds for a whole display frame of the browser,
  whatever callbacks are pending.
\<close>

theorem no_face_frame_skipped:
  assumes "results = None \<or> results = Some []"
  shows "(\<exists>s'. detectFrame l v results s = Inr s' \<and> debounce s' = debounce s \<and>
               onBlinkCalls s' = onBlinkCalls s)
         \<and> debounce (animationFrame v results s) = debounce s
         \<and> onBlinkCalls (animationFrame v results s) = onBlinkCalls s"
proof -
  from assms have f: "faceless results" by (simp add: faceless_iff)
  show ?thesis
    using detectFrame_faceless [OF f, of l v s] animationFrame_faceless [OF f, of v s]
    by simp
qed

text \<open>
  Witness for C3: a dropout after two closed frames keeps the count of 2 and emits nothing.
\<close>

theorem no_face_frame_skipped_witness:
  "debounce midClosure = \<lparr>blinkCounterRef = 2, wasBlinkingRef = False\<rparr>
   \<and> debounce (animationFrame (videoAt 3) None midClosure) =
       \<lparr>blinkCounterRef = 2, wasBlinkingRef = False\<rparr>
   \<and> onBlinkCalls (animationFrame (videoAt 3) None midClosure) = 0
   \<and> debounce (animationFrame (videoAt 3) (Some []) midClosure) =
       \<lparr>blinkCounterRef = 2, wasBlinkingRef = False\<rparr>"
proof -
  have "debounce (animationFrame (videoAt 3) None midClosure) = debounce midClosure
        \<and> onBlinkCalls (animationFrame (videoAt 3) None midClosure) = onBlinkCalls midClosure"
    using no_face_frame_skipped
            [of None "\<lparr>lastVideoTime = 2, opts = defaultOptions\<rparr>" "videoAt 3" midClosure] by simp
  moreover have
    "debounce (animationFrame (videoAt 3) (Some []) midClosure) = debounce midClosure"
    using no_face_frame_skipped
            [of "Some []" "\<lparr>lastVideoTime = 2, opts = defaultOptions\<rparr>" "videoAt 3" midClosure] by simp
  ultimately show ?thesis by (simp add: midClosure_def)
qed


section \<open>Properties of starting, stopping and initializing\<close>

lemma startDetection_noop:
  assumes "\<not> faceLandmarkerRef s \<or> video = None \<or> canvas = None \<or>
           (\<exists>c. canvas = Some c \<and> \<not> context2d c)"
  shows "startDetection os video canvas results s = Inr s"
  using assms by (auto simp add: startDetection_def split: option.splits bool.splits)

lemma startDetection_begins:
  assumes "faceLandmarkerRef s" "context2d c"
  shows "startDetection os (Some v) (Some c) results s =
           detectFrame \<lparr>lastVideoTime = - 1, opts = os\<rparr> v results
             (s\<lparr>drawingUtilsRef := True, isRunning := True\<rparr>)"
  using assms by (simp add: startDetection_def)

lemma startDetection_loop:
  assumes "faceLandmarkerRef s" "context2d c" "completeFaces results"
  shows "\<exists>s' l. startDetection os (Some v) (Some c) results s = Inr s' \<and> isRunning s' \<and>
            frameQueue s' = frameQueue s @ [(nextHandle s, l)] \<and> opts l = os \<and>
            animationFrameRef s' = Some (nextHandle s)"
proof -
  let ?s0 = "s\<lparr>drawingUtilsRef := True, isRunning := True\<rparr>"
  let ?l0 = "\<lparr>lastVideoTime = - 1, opts = os\<rparr>"
  obtain s' where d: "detectFrame ?l0 v results ?s0 = Inr s'"
    using detectFrame_returns [OF assms(3)] by blast
  from detectFrame_fields(6) [OF d] obtain l where
    l: "frameQueue s' = frameQueue ?s0 @ [(nextHandle ?s0, l)]" "opts l = opts ?l0" by blast
  have "isRunning s'" using detectFrame_fields(1) [OF d] by simp
  moreover have "animationFrameRef s' = Some (nextHandle s)"
    using detectFrame_fields(7) [OF d] by simp
  ultimately show ?thesis using l d startDetection_begins [OF assms(1,2)] by simp
qed

lemma stopDetection_fields:
  "debounce (stopDetection s) = \<lparr>blinkCounterRef = 0, wasBlinkingRef = False\<rparr>"
  "\<not> isRunning (stopDetection s)"
  "onBlinkCalls (stopDetection s) = onBlinkCalls s"
  "faceLandmarkerRef (stopDetection s) = faceLandmarkerRef s"
  "isInitialized (stopDetection s) = isInitialized s"
  "error (stopDetection s) = error s"
  "nextHandle (stopDetection s) = nextHandle s"
  by (simp_all add: stopDetection_def cancelAnimationFrame_def Let_def split: option.splits)

lemma stopDetection_queue:
  "single_loop s \<Longrightarrow>
     frameQueue (stopDetection s) = [] \<and> animationFrameRef (stopDetection s) = None"
  by (cases "frameQueue s")
     (auto simp add: single_loop_def stopDetection_def cancelAnimationFrame_def Let_def
      split: option.splits)

text \<open>
  The invariant \<^const>\<open>single_loop\<close> holds initially and is kept by initializing, by the
  browser's display frames, by stopping, and by starting while no loop is pending.
\<close>

lemma single_loop_initial: "single_loop initialState"
  by (simp add: single_loop_def initialState_def)

lemma single_loop_initialize:
  "single_loop s \<Longrightarrow> initializeDetector outcome s = Inr s' \<Longrightarrow> single_loop s'"
  by (cases outcome) (auto simp add: single_loop_def initializeDetector_def)

lemma single_loop_stop: "single_loop s \<Longrightarrow> single_loop (stopDetection s)"
  using stopDetection_queue [of s] stopDetection_fields(7) [of s]
  by (simp add: single_loop_def)

lemma single_loop_detectFrame:
  assumes "0 < nextHandle s" "frameQueue s = []" "detectFrame l v results s = Inr s'"
  shows "single_loop s'"
  using detectFrame_fields(6,7,8) [OF assms(3)] assms(1,2)
  by (auto simp add: single_loop_def)

lemma single_loop_runCallback:
  assumes "0 < nextHandle s" "frameQueue s = []" "animationFrameRef s \<noteq> Some 0"
  shows "single_loop (runCallback v results l s)"
proof (cases "detectFrame l v results s")
  case (Inl e)
  then show ?thesis using assms by (simp add: runCallback_def single_loop_def)
next
  case (Inr s')
  then show ?thesis
    using single_loop_detectFrame [OF assms(1,2) Inr] by (simp add: runCallback_def)
qed

lemma single_loop_animationFrame:
  assumes "single_loop s"
  shows "single_loop (animationFrame v results s)"
proof (cases "frameQueue s")
  case Nil
  then show ?thesis using assms by (simp add: animationFrame_idle)
next
  case (Cons a q)
  with assms obtain h l where q: "frameQueue s = [(h, l)]"
    by (cases a; cases q) (auto simp add: single_loop_def)
  have "single_loop (runCallback v results l (s\<lparr>frameQueue := []\<rparr>))"
    using assms by (intro single_loop_runCallback) (auto simp add: single_loop_def)
  then show ?thesis by (simp add: animationFrame_def q)
qed

lemma single_loop_animationFrames:
  "single_loop s \<Longrightarrow> single_loop (animationFrames fs s)"
  by (induction fs arbitrary: s) (auto simp add: single_loop_animationFrame)

lemma single_loop_start:
  assumes "single_loop s" "frameQueue s = []"
    and "startDetection os video canvas results s = Inr s'"
  shows "single_loop s'"
proof (cases "faceLandmarkerRef s \<and> (\<exists>v c. video = Some v \<and> canvas = Some c \<and> context2d c)")
  case True
  then obtain v c where vc: "video = Some v" "canvas = Some c" "context2d c"
    "faceLandmarkerRef s" by auto
  have d: "detectFrame \<lparr>lastVideoTime = - 1, opts = os\<rparr> v results
             (s\<lparr>drawingUtilsRef := True, isRunning := True\<rparr>) = Inr s'"
    using assms(3) vc by (simp add: startDetection_def)
  show ?thesis
    using assms(1,2) by (intro single_loop_detectFrame [OF _ _ d]) (auto simp add: single_loop_def)
next
  case False
  then have "startDetection os video canvas results s = Inr s"
    by (intro startDetection_noop) auto
  then show ?thesis using assms by simp
qed


lemma initializeDetector_keeps_loop:
  "initializeDetector outcome s = Inr s' \<Longrightarrow>
     isRunning s' = isRunning s \<and> frameQueue s' = frameQueue s"
  by (cases outcome) (auto simp add: initializeDetector_def)

lemma startDetection_running:
  assumes "startDetection os video canvas results s = Inr s'" "\<not> isRunning s'"
  shows "s' = s"
proof (rule ccontr)
  assume ne: "s' \<noteq> s"
  have "faceLandmarkerRef s \<and> (\<exists>v c. video = Some v \<and> canvas = Some c \<and> context2d c)"
  proof (rule ccontr)
    assume "\<not> ?thesis"
    then have "startDetection os video canvas results s = Inr s"
      by (intro startDetection_noop) auto
    with assms(1) ne show False by simp
  qed
  then obtain v c where vc: "video = Some v" "canvas = Some c" "context2d c"
    "faceLandmarkerRef s" by auto
  have "detectFrame \<lparr>lastVideoTime = - 1, opts = os\<rparr> v results
          (s\<lparr>drawingUtilsRef := True, isRunning := True\<rparr>) = Inr s'"
    using assms(1) vc by (simp add: startDetection_def)
  from detectFrame_fields(1) [OF this] assms(2) show False by simp
qed

lemma animationFrame_isRunning: "isRunning (animationFrame v results s) = isRunning s"
proof -
  have "isRunning (fold (\<lambda>(h, l). runCallback v results l) q t) = isRunning t" for q t
  proof (induction q arbitrary: t)
    case Nil
    then show ?case by simp
  next
    case (Cons a q)
    obtain h l where a: "a = (h, l)" by (cases a)
    have "isRunning (runCallback v results l t) = isRunning t"
      by (cases "detectFrame l v results t")
         (simp_all add: runCallback_def detectFrame_fields(1))
    then show ?case using Cons.IH [of "runCallback v results l t"] by (simp add: a)
  qed
  from this [of "frameQueue s" "s\<lparr>frameQueue := []\<rparr>"] show ?thesis
    by (simp add: animationFrame_def)
qed

text \<open>
  Every state reached with guarded starts has at most one pending loop, registered in
  \<^verbatim>\<open>animationFrameRef\<close>, and none while \<^verbatim>\<open>isRunning\<close> is false. Such states are
  reachable; the state after a second start is reachable too, and has two loops.
\<close>

lemma guarded_single_loop:
  "guarded s \<Longrightarrow> single_loop s \<and> (\<not> isRunning s \<longrightarrow> frameQueue s = [])"
proof (induction rule: guarded.induct)
  case initial
  then show ?case by (simp add: single_loop_initial) (simp add: initialState_def)
next
  case (initialize s outcome s')
  then show ?case
    using single_loop_initialize [of s outcome s'] initializeDetector_keeps_loop [of outcome s s']
    by simp
next
  case (start s os video canvas results s')
  then have q: "frameQueue s = []" by simp
  have "single_loop s'" using single_loop_start [OF _ q start.hyps(3)] start.IH by simp
  moreover have "frameQueue s' = []" if "\<not> isRunning s'"
    using startDetection_running [OF start.hyps(3) that] q by simp
  ultimately show ?case by simp
next
  case (start_raises s os video canvas results e)
  then show ?case by (simp add: single_loop_def)
next
  case (frame s v results)
  show ?case
  proof (cases "isRunning s")
    case True
    then show ?thesis
      using frame.IH single_loop_animationFrame [of s v results]
      by (simp add: animationFrame_isRunning)
  next
    case False
    then have "animationFrame v results s = s" using frame.IH by (simp add: animationFrame_idle)
    then show ?thesis using frame.IH by simp
  qed
next
  case (stop s)
  then show ?case using single_loop_stop [of s] stopDetection_queue [of s] by simp
qed





lemma doubleStarted_two_loops: "\<not> single_loop doubleStarted"
  by (simp add: single_loop_def doubleStarted_def)

text \<open>
  Claim C10. \<^verbatim>\<open>startDetection\<close> called before a landmarker is loaded, or without a video,
  without a canvas, or with a canvas that gives no 2D context, returns at once and leaves
  the hook exactly as it was: no frame loop is started, \<^verbatim>\<open>isRunning\<close> is not set and the
  debounce state is untouched.
\<close>

theorem startDetection_guarded_noop:
  assumes "\<not> faceLandmarkerRef s \<or> video = None \<or> canvas = None \<or>
           (\<exists>c. canvas = Some c \<and> \<not> context2d c)"
  shows "startDetection os video canvas results s = Inr s"
  using assms by (rule startDetection_noop)

text \<open>
  Witness for C10: a start before initialization; and on the initialized hook a start with
  a canvas without 2D context, without a video, and without a canvas.
\<close>

theorem startDetection_guarded_noop_witness:
  "startDetection defaultOptions (Some exampleVideo) (Some exampleCanvas) (Some [closedFace])
     initialState = Inr initialState
   \<and> \<not> isRunning initialState \<and> frameQueue initialState = []
   \<and> startDetection defaultOptions (Some exampleVideo) (Some \<lparr>context2d = False\<rparr>)
       (Some [closedFace]) readyState = Inr readyState
   \<and> startDetection defaultOptions None (Some exampleCanvas) (Some [closedFace]) readyState =
       Inr readyState
   \<and> startDetection defaultOptions (Some exampleVideo) None (Some [closedFace]) readyState =
       Inr readyState"
proof -
  have "\<not> faceLandmarkerRef initialState" by (simp add: initialState_def)
  then have a: "startDetection defaultOptions (Some exampleVideo) (Some exampleCanvas)
                  (Some [closedFace]) initialState = Inr initialState"
    by (intro startDetection_guarded_noop) simp
  have b: "startDetection defaultOptions (Some exampleVideo) (Some \<lparr>context2d = False\<rparr>)
             (Some [closedFace]) readyState = Inr readyState"
    by (intro startDetection_guarded_noop) simp
  have c: "startDetection defaultOptions None (Some exampleCanvas) (Some [closedFace])
             readyState = Inr readyState"
    by (intro startDetection_guarded_noop) simp
  have d: "startDetection defaultOptions (Some exampleVideo) None (Some [closedFace])
             readyState = Inr readyState"
    by (intro startDetection_guarded_noop) simp
  show ?thesis using a b c d by (simp add: initialState_def)
qed

text \<open>
  Claim C8. \<^verbatim>\<open>initializeDetector\<close> never raises, whatever the loads do. When a load
  fails it reports the failure through \<^verbatim>\<open>error\<close> and leaves \<^verbatim>\<open>isInitialized\<close> false,
  changing nothing else; a later call whose loads succeed clears the error, sets
  \<^verbatim>\<open>isInitialized\<close> and the landmarker, after which detection can be started.
\<close>

theorem initializeDetector_failure_reported:
  "(\<exists>s'. initializeDetector outcome s = Inr s')
   \<and> (outcome \<noteq> Loaded \<longrightarrow>
        initializeDetector outcome s =
          Inr (s\<lparr>error := Some ''Failed to initialize face detector. Please try again.'',
                 isInitialized := False\<rparr>)
        \<and> (\<exists>s'. initializeDetector outcome s = Inr s' \<and> \<not> isInitialized s'
              \<and> error s' = Some ''Failed to initialize face detector. Please try again.''
              \<and> (\<exists>s''. initializeDetector Loaded s' = Inr s'' \<and> isInitialized s''
                    \<and> error s'' = None \<and> faceLandmarkerRef s''
                    \<and> (context2d c \<and> completeFaces results \<longrightarrow>
                         (\<exists>s3. startDetection os (Some v) (Some c) results s'' = Inr s3
                               \<and> isRunning s3)))))"
proof -
  have total: "\<exists>s'. initializeDetector outcome s = Inr s'"
    by (cases outcome) (simp_all add: initializeDetector_def)
  have failed: "initializeDetector outcome s =
          Inr (s\<lparr>error := Some ''Failed to initialize face detector. Please try again.'',
                 isInitialized := False\<rparr>)" if "outcome \<noteq> Loaded"
    using that by (cases outcome) (simp_all add: initializeDetector_def)
  have retry: "\<exists>s''. initializeDetector Loaded s' = Inr s'' \<and> isInitialized s''
                 \<and> error s'' = None \<and> faceLandmarkerRef s''
                 \<and> (context2d c \<and> completeFaces results \<longrightarrow>
                      (\<exists>s3. startDetection os (Some v) (Some c) results s'' = Inr s3
                            \<and> isRunning s3))" for s'
  proof -
    let ?s = "s'\<lparr>error := None, faceLandmarkerRef := True, isInitialized := True\<rparr>"
    have i: "initializeDetector Loaded s' = Inr ?s" by (simp add: initializeDetector_def)
    have "\<exists>s3. startDetection os (Some v) (Some c) results ?s = Inr s3 \<and> isRunning s3"
      if "context2d c" "completeFaces results"
      using startDetection_loop [of ?s c results os v] that by auto
    then show ?thesis using i by simp
  qed
  show ?thesis using total failed retry by simp
qed

text \<open>
  Witness for C8: the first initialization fails in the resolver, the retry succeeds and
  gives the state from which detection starts.
\<close>

theorem initializeDetector_failure_reported_witness:
  "initializeDetector ResolverFails initialState =
     Inr (initialState\<lparr>error := Some ''Failed to initialize face detector. Please try again.''\<rparr>)
   \<and> initializeDetector Loaded
       (initialState\<lparr>error := Some ''Failed to initialize face detector. Please try again.''\<rparr>) =
       Inr readyState
   \<and> startDetection defaultOptions (Some exampleVideo) (Some exampleCanvas) None readyState =
       Inr runningState"
proof -
  have "initializeDetector ResolverFails initialState =
     Inr (initialState\<lparr>error := Some ''Failed to initialize face detector. Please try again.'',
                       isInitialized := False\<rparr>)"
    using initializeDetector_failure_reported [of ResolverFails initialState] by simp
  then have a: "initializeDetector ResolverFails initialState =
     Inr (initialState\<lparr>error := Some ''Failed to initialize face detector. Please try again.''\<rparr>)"
    by (simp add: initialState_def)
  have b: "initializeDetector Loaded
       (initialState\<lparr>error := Some ''Failed to initialize face detector. Please try again.''\<rparr>) =
       Inr readyState"
    by (simp add: initializeDetector_def readyState_def initialState_def)
  show ?thesis using a b start_runningState by simp
qed





text \<open>
  Counterexample for C5 as stated. On the running hook (one pending loop) a second call
  of \<^verbatim>\<open>startDetection\<close> returns a different state, with two pending loops; after it,
  \<^verbatim>\<open>stopDetection\<close> cancels only the later one. The debounce state changes as well: the
  second call processes the current image at once, so a closed-eye image that the running
  loop has already seen (video time 0) is counted again.
\<close>

theorem startDetection_not_idempotent_counterexample:
  "isRunning runningState
   \<and> length (frameQueue runningState) = 1
   \<and> startDetection defaultOptions (Some exampleVideo) (Some exampleCanvas) None runningState =
       Inr doubleStarted
   \<and> doubleStarted \<noteq> runningState
   \<and> length (frameQueue doubleStarted) = 2
   \<and> frameQueue (stopDetection doubleStarted) =
       [(1, \<lparr>lastVideoTime = 0, opts = defaultOptions\<rparr>)]
   \<and> debounce runningState = \<lparr>blinkCounterRef = 0, wasBlinkingRef = False\<rparr>
   \<and> map_sum id debounce
        (startDetection defaultOptions (Some exampleVideo) (Some exampleCanvas)
           (Some [closedFace]) runningState) =
       Inr \<lparr>blinkCounterRef = 1, wasBlinkingRef = False\<rparr>"
proof -
  have "map_sum id debounce
        (startDetection defaultOptions (Some exampleVideo) (Some exampleCanvas)
           (Some [closedFace]) runningState) =
       Inr \<lparr>blinkCounterRef = 1, wasBlinkingRef = False\<rparr>"
    by (simp add: startDetection_def detectFrame_def processLandmarks_closedFace rearm_def
        requestAnimationFrame_def runningState_def exampleVideo_def exampleCanvas_def)
  moreover have "frameQueue (stopDetection doubleStarted) =
       [(1, \<lparr>lastVideoTime = 0, opts = defaultOptions\<rparr>)]"
    by (simp add: stopDetection_def cancelAnimationFrame_def doubleStarted_def)
  moreover have "doubleStarted \<noteq> runningState"
    by (simp add: doubleStarted_def runningState_def)
  ultimately show ?thesis
    using start_doubleStarted by (simp add: runningState_def doubleStarted_def)
qed

text \<open>
  Claim C5, amended. With a landmarker loaded, a video, a canvas with a 2D context, and an
  answer of the landmarker whose first face (if any) is complete, \<^verbatim>\<open>startDetection\<close>
  starts a frame loop whether or not detection is already running: it returns with
  \<^verbatim>\<open>isRunning\<close> true and with one more pending frame callback than before, appended to
  those already pending, whose handle it stores in \<^verbatim>\<open>animationFrameRef\<close>.
\<close>

theorem startDetection_adds_loop:
  assumes "faceLandmarkerRef s" "context2d c" "completeFaces results"
  shows "\<exists>s' l. startDetection os (Some v) (Some c) results s = Inr s' \<and> isRunning s' \<and>
            frameQueue s' = frameQueue s @ [(nextHandle s, l)] \<and> opts l = os \<and>
            animationFrameRef s' = Some (nextHandle s) \<and>
            length (frameQueue s') = length (frameQueue s) + 1"
  using startDetection_loop [OF assms, of os v] by auto

text \<open>Witness for C5: the second start on the running hook.\<close>

theorem startDetection_adds_loop_witness:
  "isRunning runningState \<and> faceLandmarkerRef runningState \<and> context2d exampleCanvas
   \<and> completeFaces None
   \<and> (\<exists>s' l. startDetection defaultOptions (Some exampleVideo) (Some exampleCanvas) None
               runningState = Inr s' \<and> isRunning s' \<and>
             frameQueue s' = frameQueue runningState @ [(nextHandle runningState, l)] \<and>
             opts l = defaultOptions \<and>
             animationFrameRef s' = Some (nextHandle runningState) \<and>
             length (frameQueue s') = length (frameQueue runningState) + 1)"
proof -
  have pre: "faceLandmarkerRef runningState" "context2d exampleCanvas" "completeFaces None"
    by (simp_all add: runningState_def exampleCanvas_def completeFaces_def)
  have "isRunning runningState" by (simp add: runningState_def)
  then show ?thesis
    using pre startDetection_adds_loop [OF pre, of defaultOptions exampleVideo] by simp
qed

end
